theory Spec2Isabelle
  imports Main "HOL-Library.Word" "HOL-Library.Sublist"
begin

section \<open>Go values shared by both packages\<close>

subsection \<open>Errors\<close>

text \<open>
  A Go \<open>error\<close> is an interface value that may be \<open>nil\<close>: it is modelled as
  \<open>go_error option\<close>, \<open>None\<close> being \<open>nil\<close>. An error is either a plain message
  (\<open>errors.New\<close>, \<open>errors.Errorf\<close>, \<open>fmt.Errorf\<close>, or whatever a library returns) or
  a cause annotated with a message (\<open>errors.Wrap\<close> of github.com/pkg/errors).
\<close>

datatype go_error = ErrorString string | WithMessage go_error string

fun Error :: "go_error \<Rightarrow> string" where
  "Error (ErrorString m) = m"
| "Error (WithMessage cause m) = m @ '': '' @ Error cause"

definition errors_New :: "string \<Rightarrow> go_error option" where
  "errors_New m = Some (ErrorString m)"

text \<open>
  \<open>errors.Wrap(err, message)\<close> of github.com/pkg/errors: "If err is nil, Wrap returns
  nil." Otherwise the cause is kept and annotated.
\<close>

definition errors_Wrap :: "go_error option \<Rightarrow> string \<Rightarrow> go_error option" where
  "errors_Wrap err m = (case err of None \<Rightarrow> None | Some e \<Rightarrow> Some (WithMessage e m))"

text \<open>\<open>strings.Contains(s, substr)\<close>: \<open>substr\<close> occurs contiguously in \<open>s\<close>.\<close>

definition strings_Contains :: "string \<Rightarrow> string \<Rightarrow> bool" where
  "strings_Contains s substr = sublist substr s"

subsection \<open>File modes\<close>

text \<open>
  \<open>os.FileMode\<close> is a \<open>uint32\<close>. Go writes permissions in octal (\<open>0755\<close>);
  \<open>octal\<close> reads a list of octal digits, so that \<open>octal [0,7,5,5]\<close> is Go's \<open>0755\<close>.
\<close>

type_synonym FileMode = "32 word"

definition octal :: "nat list \<Rightarrow> FileMode" where
  "octal ds = foldl (\<lambda>a d. a * 8 + of_nat d) 0 ds"

subsection \<open>Calls that leave the process\<close>

text \<open>
  The functions of this repository call the operating system, the network and AWS.
  Each such call is recorded, with its arguments, as an event of a trace; what the call
  returns is given by an oracle that may depend on the whole trace so far. A function
  that performs calls takes the trace so far and returns the extended trace.
\<close>

record UploadInput =
  Bucket :: string
  Key :: string
  ACL :: string
  Body :: string
  ContentType :: string
  ContentDisposition :: string

datatype event =
    S3Upload UploadInput
  | OsStat string
  | OsMkdirAll string FileMode
  | WriteFile string string FileMode
  | TempFile string string "go_error + string"
  | OsRemove string
  | ExecCommand "string list"
  | ReadFile string

type_synonym trace = "event list"

text \<open>
  A Go function either returns or panics (\<open>session.Must\<close> panics when the AWS session
  cannot be created).
\<close>

datatype 'a exit = Return 'a | Panic go_error

text \<open>
  The calls to the operating system that both packages make (packages \<open>os\<close>,
  \<open>io/ioutil\<close> and \<open>os/exec\<close>), as parameters: each gives the result of the call
  after the trace so far. \<open>ioutil_TempFile tr dir pattern\<close> gives the name of the file
  created; \<open>exec_CombinedOutput tr argv\<close> gives the output of the command and its error.
\<close>

record os_libs =
  os_Stat :: "trace \<Rightarrow> string \<Rightarrow> go_error option"
  os_MkdirAll :: "trace \<Rightarrow> string \<Rightarrow> FileMode \<Rightarrow> go_error option"
  ioutil_WriteFile :: "trace \<Rightarrow> string \<Rightarrow> string \<Rightarrow> FileMode \<Rightarrow> go_error option"
  ioutil_TempFile :: "trace \<Rightarrow> string \<Rightarrow> string \<Rightarrow> go_error + string"
  ioutil_ReadFile :: "trace \<Rightarrow> string \<Rightarrow> go_error + string"
  exec_CombinedOutput :: "trace \<Rightarrow> string list \<Rightarrow> string \<times> go_error option"

text \<open>
  A deferred \<open>os.Remove(name)\<close> runs when the function exits, after everything else the
  function does; its result is discarded.
\<close>

definition defer_Remove :: "string \<Rightarrow> 'a \<times> trace \<Rightarrow> 'a \<times> trace" where
  "defer_Remove name r = (fst r, snd r @ [OsRemove name])"

text \<open>The names of the temporary files a trace creates, and the names it removes.\<close>

fun created :: "trace \<Rightarrow> string list" where
  "created [] = []"
| "created (TempFile dir pattern (Inr name) # es) = name # created es"
| "created (e # es) = created es"

fun removed :: "trace \<Rightarrow> string list" where
  "removed [] = []"
| "removed (OsRemove name # es) = name # removed es"
| "removed (e # es) = removed es"

fun isOsRemove :: "event \<Rightarrow> bool" where
  "isOsRemove (OsRemove name) = True"
| "isOsRemove e = False"

text \<open>The directory and the pattern of each call of \<open>ioutil.TempFile\<close>, in order.\<close>

fun requested :: "trace \<Rightarrow> (string \<times> string) list" where
  "requested [] = []"
| "requested (TempFile dir pattern r # es) = (dir, pattern) # requested es"
| "requested (e # es) = requested es"

text \<open>
  The permissions of the files after the calls of a trace, as the documentation of
  \<open>io/ioutil\<close> gives them. \<open>TempFile\<close> "creates a new temporary file": it opens it with
  \<open>O_CREATE|O_EXCL\<close> and the permissions 0600. \<open>WriteFile\<close>: "If the file does not
  exist, WriteFile creates it with permissions perm; otherwise WriteFile truncates it
  before writing, without changing permissions." \<open>os.Remove\<close> removes the file. The
  other calls change no permissions.
\<close>

fun file_mode_step :: "(string \<rightharpoonup> FileMode) \<Rightarrow> event \<Rightarrow> (string \<rightharpoonup> FileMode)" where
  "file_mode_step fs (TempFile dir pattern (Inr name)) = fs(name \<mapsto> octal [0,6,0,0])"
| "file_mode_step fs (WriteFile name data perm) =
     (case fs name of None \<Rightarrow> fs(name \<mapsto> perm) | Some m \<Rightarrow> fs)"
| "file_mode_step fs (OsRemove name) = fs(name := None)"
| "file_mode_step fs e = fs"

definition file_modes :: "trace \<Rightarrow> (string \<rightharpoonup> FileMode) \<Rightarrow> (string \<rightharpoonup> FileMode)" where
  "file_modes tr fs = foldl file_mode_step fs tr"

section \<open>Package contentsignaturepki: upload.go\<close>

text \<open>The fields of \<open>net/url.URL\<close> that the package reads.\<close>

record URL =
  Scheme :: string
  Host :: string
  Path :: string

text \<open>
  The fields of \<open>net/http.Response\<close> that \<open>GetX5U\<close> reads; \<open>ReadAll\<close> is what
  \<open>ioutil.ReadAll(resp.Body)\<close> gives for this response.
\<close>

record Response =
  StatusCode :: int
  Status :: string
  ReadAll :: "go_error + string"

text \<open>\<open>encoding/pem.Block\<close>, without its headers, which the package does not read.\<close>

record Block =
  Type :: string
  Bytes :: string

datatype ExtKeyUsage =
    ExtKeyUsageAny
  | ExtKeyUsageServerAuth
  | ExtKeyUsageClientAuth
  | ExtKeyUsageCodeSigning
  | ExtKeyUsageEmailProtection
  | ExtKeyUsageTimeStamping
  | ExtKeyUsageOCSPSigning

text \<open>
  \<open>x509.VerifyOptions\<close>, with the fields that \<open>GetX5U\<close> sets; a \<open>CertPool\<close> is the
  list of the certificates added to it. \<open>'c\<close> stands for \<open>*x509.Certificate\<close>.
\<close>

record 'c VerifyOptions =
  Roots :: "'c list"
  Intermediates :: "'c list"
  KeyUsages :: "ExtKeyUsage list"

text \<open>
  The libraries that upload.go calls and that are not part of this repository, as
  parameters. \<open>http_Get registered u\<close> is \<open>c.Get(u)\<close> on a client whose transport has
  the file protocol registered iff \<open>registered\<close> holds.
\<close>

record 'c libs = os_libs +
  url_Parse :: "string \<Rightarrow> go_error + URL"
  http_Get :: "bool \<Rightarrow> string \<Rightarrow> go_error + Response"
  pem_Decode :: "string \<Rightarrow> Block option \<times> string"
  x509_ParseCertificate :: "string \<Rightarrow> go_error + 'c"
  x509_Verify :: "'c \<Rightarrow> 'c VerifyOptions \<Rightarrow> go_error option"
  session_NewSession :: "trace \<Rightarrow> go_error option"
  s3manager_Upload :: "trace \<Rightarrow> UploadInput \<Rightarrow> go_error option"

text \<open>
  Modelled from the spec: the struct \<open>ContentSigner\<close> is declared in a file of the package
  that is not under src/; upload.go reads its field \<open>chainUploadLocation\<close> only (the
  spec's "chain upload location" of a SignerConfig).
\<close>

record ContentSigner =
  chainUploadLocation :: string

subsection \<open>uploadToS3\<close>

definition uploadToS3 ::
  "'c libs \<Rightarrow> string \<Rightarrow> string \<Rightarrow> URL \<Rightarrow> trace \<Rightarrow> go_error option exit \<times> trace" where
  "uploadToS3 L data name target tr =
     (case session_NewSession L tr of
        Some e \<Rightarrow> (Panic e, tr)
      | None \<Rightarrow>
          (let input = \<lparr>Bucket = Host target,
                        Key = Path target @ name,
                        ACL = ''public-read'',
                        Body = data,
                        ContentType = ''binary/octet-stream'',
                        ContentDisposition = ''attachment''\<rparr>
           in (Return (s3manager_Upload L tr input), tr @ [S3Upload input])))"

subsection \<open>writeLocalFile\<close>

definition writeLocalFile ::
  "'c libs \<Rightarrow> string \<Rightarrow> string \<Rightarrow> URL \<Rightarrow> trace \<Rightarrow> go_error option \<times> trace" where
  "writeLocalFile L data name target tr =
     (let tr1 = tr @ [OsStat (Path target)] in
      case os_Stat L tr (Path target) of
        Some err \<Rightarrow>
          if strings_Contains (Error err) ''no such file or directory'' then
            (let tr2 = tr1 @ [OsMkdirAll (Path target) (octal [0,7,5,5])] in
             case os_MkdirAll L tr1 (Path target) (octal [0,7,5,5]) of
               Some err' \<Rightarrow> (errors_Wrap (Some err') ''failed to make directory'', tr2)
             | None \<Rightarrow>
                 (ioutil_WriteFile L tr2 (Path target @ name) data (octal [0,7,5,5]),
                  tr2 @ [WriteFile (Path target @ name) data (octal [0,7,5,5])]))
          else (Some err, tr1)
      | None \<Rightarrow>
          (ioutil_WriteFile L tr1 (Path target @ name) data (octal [0,7,5,5]),
           tr1 @ [WriteFile (Path target @ name) data (octal [0,7,5,5])]))"

subsection \<open>upload\<close>

definition upload ::
  "'c libs \<Rightarrow> ContentSigner \<Rightarrow> string \<Rightarrow> string \<Rightarrow> trace \<Rightarrow> go_error option exit \<times> trace" where
  "upload L s data name tr =
     (case url_Parse L (chainUploadLocation s) of
        Inl err \<Rightarrow> (Return (errors_Wrap (Some err) ''failed to parse chain upload location''), tr)
      | Inr parsedURL \<Rightarrow>
          if Scheme parsedURL = ''s3'' then uploadToS3 L data name parsedURL tr
          else if Scheme parsedURL = ''file'' then
            (case writeLocalFile L data name parsedURL tr of (err, tr') \<Rightarrow> (Return err, tr'))
          else (Return (errors_New (''unsupported upload scheme '' @ Scheme parsedURL)), tr))"

subsection \<open>GetX5U\<close>

text \<open>
  \<open>GetX5U\<close> has the named results \<open>certs\<close> and \<open>err\<close>; every \<open>return\<close> gives back their
  current values. \<open>certs\<close> starts as \<open>nil\<close> (the empty list) and is appended to after
  each certificate is parsed. Where a PEM block is missing or has another type than
  CERTIFICATE, the source assigns \<open>errors.Wrap(err, ...)\<close> to \<open>err\<close>; \<open>err\<close> is \<open>nil\<close> at
  each of these three places, since the call before it (\<open>ioutil.ReadAll\<close>, or
  \<open>x509.ParseCertificate\<close>) has succeeded.
\<close>

definition codeSigningOpts :: "'c \<Rightarrow> 'c \<Rightarrow> 'c VerifyOptions" where
  "codeSigningOpts intermediate root =
     \<lparr>Roots = [root], Intermediates = [intermediate], KeyUsages = [ExtKeyUsageCodeSigning]\<rparr>"

definition isCertificateBlock :: "Block option \<Rightarrow> bool" where
  "isCertificateBlock block = (case block of None \<Rightarrow> False | Some b \<Rightarrow> Type b = ''CERTIFICATE'')"

definition GetX5U :: "'c libs \<Rightarrow> string \<Rightarrow> 'c list \<times> go_error option" where
  "GetX5U L x5u =
     (case url_Parse L x5u of
        Inl err \<Rightarrow> ([], errors_Wrap (Some err) ''failed to parse chain upload location'')
      | Inr parsedURL \<Rightarrow>
     (case http_Get L (Scheme parsedURL = ''file'') x5u of
        Inl err \<Rightarrow> ([], errors_Wrap (Some err) ''failed to retrieve x5u'')
      | Inr resp \<Rightarrow>
     if StatusCode resp \<noteq> 200
     then ([], errors_New (''failed to retrieve x5u from '' @ x5u @ '': '' @ Status resp))
     else
     (case ReadAll resp of
        Inl err \<Rightarrow> ([], errors_Wrap (Some err) ''failed to parse x5u body'')
      | Inr body \<Rightarrow>
     (case pem_Decode L body of (block, rest) \<Rightarrow>
     if \<not> isCertificateBlock block
     then ([], errors_Wrap None ''failed to PEM decode ee certificate from chain'')
     else
     (case x509_ParseCertificate L (Bytes (the block)) of
        Inl err \<Rightarrow> ([], errors_Wrap (Some err) ''failed to parse ee certificate from chain'')
      | Inr ee \<Rightarrow>
     (case pem_Decode L rest of (block, rest) \<Rightarrow>
     if \<not> isCertificateBlock block
     then ([ee], errors_Wrap None ''failed to PEM decode intermediate certificate from chain'')
     else
     (case x509_ParseCertificate L (Bytes (the block)) of
        Inl err \<Rightarrow>
          ([ee], errors_Wrap (Some err) ''failed to parse intermediate issuer certificate from chain'')
      | Inr intermediate \<Rightarrow>
     (case pem_Decode L rest of (block, rest) \<Rightarrow>
     if \<not> isCertificateBlock block
     then ([ee, intermediate], errors_Wrap None ''failed to PEM decode root certificate from chain'')
     else
     (case x509_ParseCertificate L (Bytes (the block)) of
        Inl err \<Rightarrow> ([ee, intermediate], errors_Wrap (Some err) ''failed to parse root certificate from chain'')
      | Inr root \<Rightarrow>
     if rest \<noteq> []
     then ([ee, intermediate], errors_New ''trailing data after root certificate in chain'')
     else
     (case x509_Verify L ee (codeSigningOpts intermediate root) of
        Some err \<Rightarrow> ([ee, intermediate, root], errors_Wrap (Some err) ''failed to verify certificate chain'')
      | None \<Rightarrow> ([ee, intermediate, root], None)))))))))))"

section \<open>Package apk2\<close>

text \<open>
  Modelled from the spec: the struct \<open>signer.Configuration\<close> and its method
  \<open>GetPrivateKey\<close> are declared in package \<open>signer\<close>, which is not under src/. Of a
  SignerConfig ("identifier, algorithm type tag, key material reference, optional
  certificate") the package apk2 reads the four fields below (\<open>Type'\<close> is the field
  \<open>Type\<close>); \<open>GetPrivateKey\<close> is a parameter.
\<close>

record Configuration =
  ID :: string
  Type' :: string
  PrivateKey :: string
  Certificate :: string

text \<open>
  The dynamic type of a \<open>crypto.PrivateKey\<close>, which \<open>New\<close> switches on, with the key
  material left opaque.
\<close>

datatype crypto_PrivateKey =
    ecdsa_PrivateKey string
  | rsa_PrivateKey string
  | other_PrivateKey string

record apk_libs = os_libs +
  GetPrivateKey :: "Configuration \<Rightarrow> go_error + crypto_PrivateKey"
  x509_MarshalPKCS8PrivateKey :: "crypto_PrivateKey \<Rightarrow> go_error + string"
  strconv_Quote :: "string \<Rightarrow> string"
  sha256_Sum :: "string \<Rightarrow> string"

text \<open>The constant \<open>Type\<close> of the package.\<close>

definition apk2_Type :: string where
  "apk2_Type = ''apk2''"

text \<open>\<open>APK2Signer\<close> embeds \<open>signer.Configuration\<close>.\<close>

record APK2Signer = Configuration +
  minSdkVersion :: string
  pkcs8Key :: string

subsection \<open>New\<close>

text \<open>
  \<open>%q\<close> in a format prints its argument as \<open>strconv.Quote\<close> does. The calls to the
  logger are not modelled.
\<close>

definition New :: "apk_libs \<Rightarrow> Configuration \<Rightarrow> APK2Signer option \<times> go_error option" where
  "New L conf =
     (if Type' conf \<noteq> apk2_Type
      then (None, errors_New (''apk2: invalid type '' @ strconv_Quote L (Type' conf) @
                              '', must be '' @ strconv_Quote L apk2_Type))
      else if ID conf = []
      then (None, errors_New ''apk2: missing signer ID in signer configuration'')
      else if PrivateKey conf = []
      then (None, errors_New ''apk2: missing private key in signer configuration'')
      else
      (case GetPrivateKey L conf of
         Inl err \<Rightarrow> (None, errors_Wrap (Some err) ''apk2: failed to get private key from configuration'')
       | Inr priv \<Rightarrow>
      (let minSdk = (case priv of ecdsa_PrivateKey k \<Rightarrow> ''18'' | _ \<Rightarrow> ''9'') in
       case x509_MarshalPKCS8PrivateKey L priv of
         Inl err \<Rightarrow> (None, errors_Wrap (Some err) ''apk2: failed to encode private key to pkcs8'')
       | Inr der \<Rightarrow>
      if Certificate conf = []
      then (None, errors_New ''apk2: missing public cert in signer configuration'')
      else (Some \<lparr>ID = ID conf, Type' = Type' conf, PrivateKey = PrivateKey conf,
                  Certificate = Certificate conf, minSdkVersion = minSdk, pkcs8Key = der\<rparr>,
            None))))"

subsection \<open>SignFile\<close>

text \<open>\<open>%x\<close> of a byte slice: two lower-case hexadecimal digits for each byte.\<close>

definition hex_digit :: "nat \<Rightarrow> char" where
  "hex_digit n = ''0123456789abcdef'' ! (n mod 16)"

definition fmt_x :: "string \<Rightarrow> string" where
  "fmt_x bs = concat (map (\<lambda>b. [hex_digit (of_char b div 16), hex_digit (of_char b)]) bs)"

definition keyPattern :: "APK2Signer \<Rightarrow> string" where
  "keyPattern s = ''apk2_'' @ ID s @ ''.key''"

definition certPattern :: "APK2Signer \<Rightarrow> string" where
  "certPattern s = ''apk2_'' @ ID s @ ''.cert''"

definition apkPattern :: "apk_libs \<Rightarrow> string \<Rightarrow> string" where
  "apkPattern L file = ''apk2_input_'' @ fmt_x (sha256_Sum L file) @ ''.apk''"

definition apksigner_argv :: "APK2Signer \<Rightarrow> string \<Rightarrow> string \<Rightarrow> string \<Rightarrow> string list" where
  "apksigner_argv s keyPath certPath tmpAPKFile =
     [''java'', ''-jar'', ''/usr/bin/apksigner'', ''sign'',
      ''--key'', keyPath,
      ''--cert'', certPath,
      ''--v1-signing-enabled'', ''true'',
      ''--v2-signing-enabled'', ''true'',
      ''--min-sdk-version'', minSdkVersion s,
      tmpAPKFile]"

text \<open>
  The result of writing the input APK to its temporary file is discarded by the source.
  The options are not read. The call to the logger is not modelled.
\<close>

definition SignFile ::
  "apk_libs \<Rightarrow> APK2Signer \<Rightarrow> string \<Rightarrow> trace \<Rightarrow> (string option \<times> go_error option) \<times> trace" where
  "SignFile L s file tr =
     (let r1 = ioutil_TempFile L tr [] (keyPattern s);
          tr1 = tr @ [TempFile [] (keyPattern s) r1] in
      case r1 of
        Inl err \<Rightarrow>
          ((None, errors_Wrap (Some err) ''apk2: failed to create tempfile with private key''), tr1)
      | Inr keyPath \<Rightarrow> defer_Remove keyPath
     (let tr2 = tr1 @ [WriteFile keyPath (pkcs8Key s) (octal [0,4,0,0])] in
      case ioutil_WriteFile L tr1 keyPath (pkcs8Key s) (octal [0,4,0,0]) of
        Some err \<Rightarrow>
          ((None, errors_Wrap (Some err) ''apk2: failed to write private key to tempfile''), tr2)
      | None \<Rightarrow>
     (let r3 = ioutil_TempFile L tr2 [] (certPattern s);
          tr3 = tr2 @ [TempFile [] (certPattern s) r3] in
      case r3 of
        Inl err \<Rightarrow>
          ((None, errors_Wrap (Some err) ''apk2: failed to create tempfile for input to sign''), tr3)
      | Inr certPath \<Rightarrow> defer_Remove certPath
     (let tr4 = tr3 @ [WriteFile certPath (Certificate s) (octal [0,4,0,0])] in
      case ioutil_WriteFile L tr3 certPath (Certificate s) (octal [0,4,0,0]) of
        Some err \<Rightarrow>
          ((None, errors_Wrap (Some err) ''apk2: failed to write public cert to tempfile''), tr4)
      | None \<Rightarrow>
     (let r5 = ioutil_TempFile L tr4 [] (apkPattern L file);
          tr5 = tr4 @ [TempFile [] (apkPattern L file) r5] in
      case r5 of
        Inl err \<Rightarrow>
          ((None, errors_Wrap (Some err) ''apk2: failed to create tempfile for input to sign''), tr5)
      | Inr tmpAPKFile \<Rightarrow> defer_Remove tmpAPKFile
     (let tr6 = tr5 @ [WriteFile tmpAPKFile file (octal [0,7,5,5])];
          argv = apksigner_argv s keyPath certPath tmpAPKFile;
          tr7 = tr6 @ [ExecCommand argv] in
      case exec_CombinedOutput L tr6 argv of
        (out, Some err) \<Rightarrow>
          ((None, errors_Wrap (Some err) (''apk2: failed to sign'' @ [CHR 0x0A] @ out)), tr7)
      | (out, None) \<Rightarrow>
     (let tr8 = tr7 @ [ReadFile tmpAPKFile] in
      case ioutil_ReadFile L tr7 tmpAPKFile of
        Inl err \<Rightarrow> ((None, errors_Wrap (Some err) ''apk2: failed to read signed file''), tr8)
      | Inr signedApk \<Rightarrow> ((Some signedApk, None), tr8))))))))"

section \<open>Test doubles\<close>

text \<open>
  One concrete choice of the libraries, on which the functions can be run. A certificate
  is reduced to the names of its subject and of its issuer; a chain body is written
  \<open>[ee][int][root]\<close>, each bracket standing for one PEM CERTIFICATE block.
\<close>

record test_cert =
  subject :: string
  issuer :: string

definition test_url_Parse :: "string \<Rightarrow> go_error + URL" where
  "test_url_Parse u =
     (if u = ''s3://bucket/chains/'' then Inr \<lparr>Scheme = ''s3'', Host = ''bucket'', Path = ''/chains/''\<rparr>
      else if u = ''file:///tmp/chains/'' then Inr \<lparr>Scheme = ''file'', Host = [], Path = ''/tmp/chains/''\<rparr>
      else if u = ''file:///tmp/chains'' then Inr \<lparr>Scheme = ''file'', Host = [], Path = ''/tmp/chains''\<rparr>
      else if u = ''ftp://host/chains/'' then Inr \<lparr>Scheme = ''ftp'', Host = ''host'', Path = ''/chains/''\<rparr>
      else if prefix ''https://example.net'' u
      then Inr \<lparr>Scheme = ''https'', Host = ''example.net'', Path = drop 19 u\<rparr>
      else Inl (ErrorString ''parse: missing protocol scheme''))"

definition test_http_Get :: "bool \<Rightarrow> string \<Rightarrow> go_error + Response" where
  "test_http_Get registered u =
     (if u = ''https://example.net/chain.pem''
      then Inr \<lparr>StatusCode = 200, Status = ''200 OK'', ReadAll = Inr ''[ee][int][root]''\<rparr>
      else if u = ''https://example.net/empty.pem''
      then Inr \<lparr>StatusCode = 200, Status = ''200 OK'', ReadAll = Inr []\<rparr>
      else if u = ''https://example.net/ee.pem''
      then Inr \<lparr>StatusCode = 200, Status = ''200 OK'', ReadAll = Inr ''[ee]''\<rparr>
      else if u = ''https://example.net/two.pem''
      then Inr \<lparr>StatusCode = 200, Status = ''200 OK'', ReadAll = Inr ''[ee][int]''\<rparr>
      else if u = ''https://example.net/other.pem''
      then Inr \<lparr>StatusCode = 200, Status = ''200 OK'', ReadAll = Inr ''[ee][int][other]''\<rparr>
      else if u = ''https://example.net/missing.pem''
      then Inr \<lparr>StatusCode = 404, Status = ''404 Not Found'', ReadAll = Inr []\<rparr>
      else Inl (ErrorString ''dial tcp: connection refused''))"

definition test_pem_Decode :: "string \<Rightarrow> Block option \<times> string" where
  "test_pem_Decode b =
     (case b of
        [] \<Rightarrow> (None, b)
      | c # r \<Rightarrow>
          if c = CHR ''['' \<and> CHR '']'' \<in> set r
          then (Some \<lparr>Type = ''CERTIFICATE'', Bytes = takeWhile (\<lambda>x. x \<noteq> CHR '']'') r\<rparr>,
                tl (dropWhile (\<lambda>x. x \<noteq> CHR '']'') r))
          else (None, b))"

definition test_ParseCertificate :: "string \<Rightarrow> go_error + test_cert" where
  "test_ParseCertificate der =
     (if der = ''ee'' then Inr \<lparr>subject = ''ee'', issuer = ''int''\<rparr>
      else if der = ''int'' then Inr \<lparr>subject = ''int'', issuer = ''root''\<rparr>
      else if der = ''root'' then Inr \<lparr>subject = ''root'', issuer = ''root''\<rparr>
      else if der = ''other'' then Inr \<lparr>subject = ''other'', issuer = ''other''\<rparr>
      else Inl (ErrorString ''asn1: syntax error''))"

text \<open>
  The end-entity verifies when the code-signing usage is asked for and its issuer is an
  intermediate of the pool whose issuer is a root of the pool.
\<close>

definition test_Verify :: "test_cert \<Rightarrow> test_cert VerifyOptions \<Rightarrow> go_error option" where
  "test_Verify c opts =
     (if ExtKeyUsageCodeSigning \<in> set (KeyUsages opts) \<and>
         list_ex (\<lambda>i. issuer c = subject i \<and> list_ex (\<lambda>r. issuer i = subject r) (Roots opts))
           (Intermediates opts)
      then None
      else Some (ErrorString ''x509: certificate signed by unknown authority''))"

definition test_Stat :: "trace \<Rightarrow> string \<Rightarrow> go_error option" where
  "test_Stat tr p =
     (if OsMkdirAll p (octal [0,7,5,5]) \<in> set tr then None
      else Some (ErrorString (''stat '' @ p @ '': no such file or directory'')))"

definition test_libs :: "test_cert libs" where
  "test_libs =
     \<lparr>os_Stat = test_Stat,
      os_MkdirAll = (\<lambda>tr p m. None),
      ioutil_WriteFile = (\<lambda>tr p d m. None),
      ioutil_TempFile = (\<lambda>tr dir pattern. Inr (''/tmp/'' @ pattern @ ''123456789'')),
      ioutil_ReadFile = (\<lambda>tr p. Inr ''signed apk''),
      exec_CombinedOutput = (\<lambda>tr argv. (''Signed'', None)),
      url_Parse = test_url_Parse,
      http_Get = test_http_Get,
      pem_Decode = test_pem_Decode,
      x509_ParseCertificate = test_ParseCertificate,
      x509_Verify = test_Verify,
      session_NewSession = (\<lambda>tr. None),
      s3manager_Upload = (\<lambda>tr input. None)\<rparr>"

definition test_GetPrivateKey :: "Configuration \<Rightarrow> go_error + crypto_PrivateKey" where
  "test_GetPrivateKey conf =
     (if PrivateKey conf = ''EC PRIVATE KEY'' then Inr (ecdsa_PrivateKey ''k1'')
      else if PrivateKey conf = ''RSA PRIVATE KEY'' then Inr (rsa_PrivateKey ''k2'')
      else Inl (ErrorString ''no suitable key found''))"

definition test_MarshalPKCS8PrivateKey :: "crypto_PrivateKey \<Rightarrow> go_error + string" where
  "test_MarshalPKCS8PrivateKey priv =
     (case priv of
        ecdsa_PrivateKey k \<Rightarrow> Inr (''pkcs8 '' @ k)
      | rsa_PrivateKey k \<Rightarrow> Inr (''pkcs8 '' @ k)
      | other_PrivateKey k \<Rightarrow> Inl (ErrorString ''x509: unknown key type while marshaling PKCS#8''))"

definition test_apk_libs :: apk_libs where
  "test_apk_libs =
     \<lparr>os_Stat = test_Stat,
      os_MkdirAll = (\<lambda>tr p m. None),
      ioutil_WriteFile = (\<lambda>tr p d m. None),
      ioutil_TempFile = (\<lambda>tr dir pattern. Inr (''/tmp/'' @ pattern @ ''123456789'')),
      ioutil_ReadFile = (\<lambda>tr p. Inr ''signed apk''),
      exec_CombinedOutput = (\<lambda>tr argv. (''Signed'', None)),
      GetPrivateKey = test_GetPrivateKey,
      x509_MarshalPKCS8PrivateKey = test_MarshalPKCS8PrivateKey,
      strconv_Quote = (\<lambda>s. [CHR 0x22] @ s @ [CHR 0x22]),
      sha256_Sum = (\<lambda>file. take 32 (file @ ''0123456789abcdef0123456789abcdef''))\<rparr>"

definition test_signer :: APK2Signer where
  "test_signer =
     \<lparr>ID = ''apk-release'', Type' = ''apk2'', PrivateKey = ''EC PRIVATE KEY'',
      Certificate = ''CERT'', minSdkVersion = ''18'', pkcs8Key = ''pkcs8 k1''\<rparr>"

text \<open>The same libraries, with an \<open>apksigner\<close> that fails.\<close>

definition test_apk_libs_failing :: apk_libs where
  "test_apk_libs_failing =
     test_apk_libs\<lparr>exec_CombinedOutput := (\<lambda>tr argv. (''Failed'', Some (ErrorString ''exit status 1'')))\<rparr>"

section \<open>Properties of GetX5U\<close>

lemmas test_defs = test_libs_def test_url_Parse_def test_http_Get_def test_pem_Decode_def
  test_ParseCertificate_def test_Verify_def

text \<open>
  Every exit of \<open>GetX5U\<close> but the last two gives back fewer than three certificates and
  an error (or \<open>nil\<close>) that is not the one of a failed verification; the last two give
  back the three certificates and what \<open>Verify\<close> said, wrapped.
\<close>

lemma GetX5U_shape:
  "(length (fst (GetX5U L x5u)) < 3 \<and>
      (\<forall>c. snd (GetX5U L x5u) \<noteq> Some (WithMessage c ''failed to verify certificate chain'')))
   \<or> (\<exists>ee i r. GetX5U L x5u =
         ([ee, i, r],
          errors_Wrap (x509_Verify L ee (codeSigningOpts i r)) ''failed to verify certificate chain''))"
  unfolding GetX5U_def errors_Wrap_def errors_New_def
  by (simp split: sum.split prod.split option.split)

lemma GetX5U_three_certs:
  assumes "fst (GetX5U L x5u) = [ee, i, r]"
  shows "snd (GetX5U L x5u) =
           errors_Wrap (x509_Verify L ee (codeSigningOpts i r)) ''failed to verify certificate chain''"
  using assms GetX5U_shape [of L x5u] by auto


lemma GetX5U_chain_pem:
  "GetX5U test_libs ''https://example.net/chain.pem'' =
     ([\<lparr>subject = ''ee'', issuer = ''int''\<rparr>, \<lparr>subject = ''int'', issuer = ''root''\<rparr>,
       \<lparr>subject = ''root'', issuer = ''root''\<rparr>], None)"
  by (simp add: GetX5U_def test_defs isCertificateBlock_def codeSigningOpts_def errors_Wrap_def)


text \<open>
  C1, as the code has it: when \<open>GetX5U\<close> returns a chain of three certificates without
  error, the end-entity certificate has been verified, for the code-signing usage, with
  the third certificate of the retrieved chain as the only root and the second as the
  only intermediate. No root configured beforehand takes part: \<open>GetX5U\<close> is given the
  URL only.
\<close>

theorem GetX5U_validates_to_chain_root:
  assumes "GetX5U L x5u = ([ee, i, r], None)"
  shows "x509_Verify L ee \<lparr>Roots = [r], Intermediates = [i], KeyUsages = [ExtKeyUsageCodeSigning]\<rparr>
           = None"
proof -
  from assms have "fst (GetX5U L x5u) = [ee, i, r]" and "snd (GetX5U L x5u) = None" by simp_all
  with GetX5U_three_certs [of L x5u ee i r] show ?thesis
    by (simp add: errors_Wrap_def codeSigningOpts_def split: option.splits)
qed

theorem GetX5U_validates_to_chain_root_witness:
  "GetX5U test_libs ''https://example.net/chain.pem'' =
     ([\<lparr>subject = ''ee'', issuer = ''int''\<rparr>, \<lparr>subject = ''int'', issuer = ''root''\<rparr>,
       \<lparr>subject = ''root'', issuer = ''root''\<rparr>], None)
   \<and> x509_Verify test_libs \<lparr>subject = ''ee'', issuer = ''int''\<rparr>
        \<lparr>Roots = [\<lparr>subject = ''root'', issuer = ''root''\<rparr>],
         Intermediates = [\<lparr>subject = ''int'', issuer = ''root''\<rparr>],
         KeyUsages = [ExtKeyUsageCodeSigning]\<rparr> = None"
  using GetX5U_validates_to_chain_root [OF GetX5U_chain_pem] GetX5U_chain_pem by simp

text \<open>
  C1 as the spec states it fails: the chain \<open>[ee][int][root]\<close> is returned without error
  although its end-entity does not verify against the root \<open>trusted\<close>, the one a
  deployment would have configured; it verifies against the root the chain brings along.
\<close>

theorem GetX5U_known_root_counterexample:
  "GetX5U test_libs ''https://example.net/chain.pem'' =
     ([\<lparr>subject = ''ee'', issuer = ''int''\<rparr>, \<lparr>subject = ''int'', issuer = ''root''\<rparr>,
       \<lparr>subject = ''root'', issuer = ''root''\<rparr>], None)
   \<and> x509_Verify test_libs \<lparr>subject = ''ee'', issuer = ''int''\<rparr>
        \<lparr>Roots = [\<lparr>subject = ''trusted'', issuer = ''trusted''\<rparr>],
         Intermediates = [\<lparr>subject = ''int'', issuer = ''root''\<rparr>],
         KeyUsages = [ExtKeyUsageCodeSigning]\<rparr> \<noteq> None"
  by (simp add: GetX5U_chain_pem) (simp add: test_libs_def test_Verify_def)

text \<open>
  C2 does not hold of the code: a body whose first, second or third PEM block is missing
  makes \<open>GetX5U\<close> return a \<open>nil\<close> error, with the certificates parsed so far. Here the
  bodies are the empty one, \<open>[ee]\<close> and \<open>[ee][int]\<close>, each served with status 200.
\<close>

theorem GetX5U_missing_block_nil_error:
  "GetX5U test_libs ''https://example.net/empty.pem'' = ([], None)
   \<and> GetX5U test_libs ''https://example.net/ee.pem'' = ([\<lparr>subject = ''ee'', issuer = ''int''\<rparr>], None)
   \<and> GetX5U test_libs ''https://example.net/two.pem'' =
       ([\<lparr>subject = ''ee'', issuer = ''int''\<rparr>, \<lparr>subject = ''int'', issuer = ''root''\<rparr>], None)"
  by (simp add: GetX5U_def test_defs isCertificateBlock_def errors_Wrap_def)

text \<open>
  The same for any libraries: when the body is retrieved and its first PEM block is
  missing or is not a CERTIFICATE, \<open>GetX5U\<close> returns no certificate and no error.
\<close>

lemma GetX5U_first_block_missing:
  assumes "url_Parse L x5u = Inr parsedURL"
    and "http_Get L (Scheme parsedURL = ''file'') x5u = Inr resp"
    and "StatusCode resp = 200" and "ReadAll resp = Inr body"
    and "\<not> isCertificateBlock (fst (pem_Decode L body))"
  shows "GetX5U L x5u = ([], None)"
  using assms by (cases "pem_Decode L body") (simp add: GetX5U_def errors_Wrap_def)



text \<open>
  C4: once the URL has parsed, a GET that fails, or that answers with another status than
  200, makes \<open>GetX5U\<close> return an error and no certificate.
\<close>

theorem GetX5U_retrieval_failure:
  assumes "url_Parse L x5u = Inr parsedURL"
  shows "(http_Get L (Scheme parsedURL = ''file'') x5u = Inl e \<longrightarrow>
            GetX5U L x5u = ([], Some (WithMessage e ''failed to retrieve x5u'')))
       \<and> (http_Get L (Scheme parsedURL = ''file'') x5u = Inr resp \<and> StatusCode resp \<noteq> 200 \<longrightarrow>
            GetX5U L x5u =
              ([], Some (ErrorString (''failed to retrieve x5u from '' @ x5u @ '': '' @ Status resp))))"
  using assms by (simp add: GetX5U_def errors_Wrap_def errors_New_def)

theorem GetX5U_retrieval_failure_witness:
  "GetX5U test_libs ''https://example.net/unreachable.pem'' =
     ([], Some (WithMessage (ErrorString ''dial tcp: connection refused'') ''failed to retrieve x5u''))
   \<and> GetX5U test_libs ''https://example.net/missing.pem'' =
     ([], Some (ErrorString
        ''failed to retrieve x5u from https://example.net/missing.pem: 404 Not Found''))"
proof -
  have p1: "url_Parse test_libs ''https://example.net/unreachable.pem'' =
      Inr \<lparr>Scheme = ''https'', Host = ''example.net'', Path = ''/unreachable.pem''\<rparr>"
    by (simp add: test_libs_def test_url_Parse_def)
  have g1: "http_Get test_libs False ''https://example.net/unreachable.pem'' =
      Inl (ErrorString ''dial tcp: connection refused'')"
    by (simp add: test_libs_def test_http_Get_def)
  have p2: "url_Parse test_libs ''https://example.net/missing.pem'' =
      Inr \<lparr>Scheme = ''https'', Host = ''example.net'', Path = ''/missing.pem''\<rparr>"
    by (simp add: test_libs_def test_url_Parse_def)
  have g2: "http_Get test_libs False ''https://example.net/missing.pem'' =
      Inr \<lparr>StatusCode = 404, Status = ''404 Not Found'', ReadAll = Inr []\<rparr>"
    by (simp add: test_libs_def test_http_Get_def)
  from GetX5U_retrieval_failure [OF p1, of "ErrorString ''dial tcp: connection refused''"] g1
  have a: "GetX5U test_libs ''https://example.net/unreachable.pem'' =
     ([], Some (WithMessage (ErrorString ''dial tcp: connection refused'') ''failed to retrieve x5u''))"
    by simp
  from GetX5U_retrieval_failure [OF p2,
      of _ "\<lparr>StatusCode = 404, Status = ''404 Not Found'', ReadAll = Inr []\<rparr>"] g2
  have b: "GetX5U test_libs ''https://example.net/missing.pem'' =
     ([], Some (ErrorString
        ''failed to retrieve x5u from https://example.net/missing.pem: 404 Not Found''))"
    by simp
  from a b show ?thesis by simp
qed

section \<open>Properties of upload\<close>

lemma upload_test_s3:
  "upload test_libs \<lparr>chainUploadLocation = ''s3://bucket/chains/''\<rparr> ''data'' ''abc.pem'' [] =
     (Return None,
      [S3Upload \<lparr>Bucket = ''bucket'', Key = ''/chains/abc.pem'', ACL = ''public-read'',
                 Body = ''data'', ContentType = ''binary/octet-stream'',
                 ContentDisposition = ''attachment''\<rparr>])"
  by (simp add: upload_def uploadToS3_def test_libs_def test_url_Parse_def)

lemma writeLocalFile_test:
  "writeLocalFile test_libs ''data'' ''abc.pem'' \<lparr>Scheme = ''file'', Host = [], Path = ''/tmp/chains/''\<rparr> [] =
     (None,
      [OsStat ''/tmp/chains/'', OsMkdirAll ''/tmp/chains/'' (octal [0,7,5,5]),
       WriteFile ''/tmp/chains/abc.pem'' ''data'' (octal [0,7,5,5])])"
  by (simp add: writeLocalFile_def test_libs_def test_Stat_def strings_Contains_def
      sublist_Cons_right Let_def)

lemma writeLocalFile_test_no_slash:
  "writeLocalFile test_libs ''data'' ''abc.pem'' \<lparr>Scheme = ''file'', Host = [], Path = ''/tmp/chains''\<rparr> [] =
     (None,
      [OsStat ''/tmp/chains'', OsMkdirAll ''/tmp/chains'' (octal [0,7,5,5]),
       WriteFile ''/tmp/chainsabc.pem'' ''data'' (octal [0,7,5,5])])"
  by (simp add: writeLocalFile_def test_libs_def test_Stat_def strings_Contains_def
      sublist_Cons_right Let_def)

lemma test_parse_file:
  "url_Parse test_libs ''file:///tmp/chains/'' = Inr \<lparr>Scheme = ''file'', Host = [], Path = ''/tmp/chains/''\<rparr>"
  by (simp add: test_libs_def test_url_Parse_def)

lemma uploadToS3_test_no_slash:
  "uploadToS3 test_libs ''data'' ''abc.pem'' \<lparr>Scheme = ''s3'', Host = ''bucket'', Path = ''/chains''\<rparr> [] =
     (Return None,
      [S3Upload \<lparr>Bucket = ''bucket'', Key = ''/chainsabc.pem'', ACL = ''public-read'',
                 Body = ''data'', ContentType = ''binary/octet-stream'',
                 ContentDisposition = ''attachment''\<rparr>])"
  by (simp add: uploadToS3_def test_libs_def)

text \<open>
  C9: \<open>upload\<close> dispatches on the scheme of the parsed chain upload location. A
  location that does not parse gives the wrapped parse error and leaves the trace as it
  was; the scheme \<open>s3\<close> gives what \<open>uploadToS3\<close> does; the scheme \<open>file\<close> gives what
  \<open>writeLocalFile\<close> does; any other scheme gives the error "unsupported upload scheme"
  and leaves the trace as it was: nothing is uploaded or written.
\<close>

theorem upload_dispatches_on_scheme:
  "(case url_Parse L (chainUploadLocation s) of
      Inl err \<Rightarrow>
        upload L s data name tr =
          (Return (Some (WithMessage err ''failed to parse chain upload location'')), tr)
    | Inr parsedURL \<Rightarrow>
        (Scheme parsedURL = ''s3'' \<longrightarrow>
           upload L s data name tr = uploadToS3 L data name parsedURL tr)
      \<and> (Scheme parsedURL = ''file'' \<longrightarrow>
           upload L s data name tr =
             (Return (fst (writeLocalFile L data name parsedURL tr)),
              snd (writeLocalFile L data name parsedURL tr)))
      \<and> (Scheme parsedURL \<noteq> ''s3'' \<and> Scheme parsedURL \<noteq> ''file'' \<longrightarrow>
           upload L s data name tr =
             (Return (Some (ErrorString (''unsupported upload scheme '' @ Scheme parsedURL))), tr)))"
  by (simp add: upload_def errors_Wrap_def errors_New_def split: sum.split prod.split)

theorem upload_dispatches_on_scheme_witness:
  "upload test_libs \<lparr>chainUploadLocation = ''::''\<rparr> ''data'' ''abc.pem'' [] =
     (Return (Some (WithMessage (ErrorString ''parse: missing protocol scheme'')
                      ''failed to parse chain upload location'')), [])
   \<and> upload test_libs \<lparr>chainUploadLocation = ''ftp://host/chains/''\<rparr> ''data'' ''abc.pem'' [] =
     (Return (Some (ErrorString ''unsupported upload scheme ftp'')), [])
   \<and> upload test_libs \<lparr>chainUploadLocation = ''s3://bucket/chains/''\<rparr> ''data'' ''abc.pem'' [] =
     uploadToS3 test_libs ''data'' ''abc.pem''
       \<lparr>Scheme = ''s3'', Host = ''bucket'', Path = ''/chains/''\<rparr> []
   \<and> upload test_libs \<lparr>chainUploadLocation = ''file:///tmp/chains/''\<rparr> ''data'' ''abc.pem'' [] =
     (Return None,
      [OsStat ''/tmp/chains/'', OsMkdirAll ''/tmp/chains/'' (octal [0,7,5,5]),
       WriteFile ''/tmp/chains/abc.pem'' ''data'' (octal [0,7,5,5])])"
proof -
  have p1: "url_Parse test_libs ''::'' = Inl (ErrorString ''parse: missing protocol scheme'')"
    by (simp add: test_libs_def test_url_Parse_def)
  have p2: "url_Parse test_libs ''ftp://host/chains/'' =
      Inr \<lparr>Scheme = ''ftp'', Host = ''host'', Path = ''/chains/''\<rparr>"
    by (simp add: test_libs_def test_url_Parse_def)
  have p3: "url_Parse test_libs ''s3://bucket/chains/'' =
      Inr \<lparr>Scheme = ''s3'', Host = ''bucket'', Path = ''/chains/''\<rparr>"
    by (simp add: test_libs_def test_url_Parse_def)
  from upload_dispatches_on_scheme
    [of test_libs "\<lparr>chainUploadLocation = ''::''\<rparr>" "''data''" "''abc.pem''" "[]"]
  have a: "upload test_libs \<lparr>chainUploadLocation = ''::''\<rparr> ''data'' ''abc.pem'' [] =
     (Return (Some (WithMessage (ErrorString ''parse: missing protocol scheme'')
                      ''failed to parse chain upload location'')), [])"
    by (simp add: p1)
  from upload_dispatches_on_scheme
    [of test_libs "\<lparr>chainUploadLocation = ''ftp://host/chains/''\<rparr>" "''data''" "''abc.pem''" "[]"]
  have b: "upload test_libs \<lparr>chainUploadLocation = ''ftp://host/chains/''\<rparr> ''data'' ''abc.pem'' [] =
     (Return (Some (ErrorString ''unsupported upload scheme ftp'')), [])"
    by (simp add: p2)
  from upload_dispatches_on_scheme
    [of test_libs "\<lparr>chainUploadLocation = ''s3://bucket/chains/''\<rparr>" "''data''" "''abc.pem''" "[]"]
  have c: "upload test_libs \<lparr>chainUploadLocation = ''s3://bucket/chains/''\<rparr> ''data'' ''abc.pem'' [] =
     uploadToS3 test_libs ''data'' ''abc.pem''
       \<lparr>Scheme = ''s3'', Host = ''bucket'', Path = ''/chains/''\<rparr> []"
    by (simp add: p3)
  from upload_dispatches_on_scheme
    [of test_libs "\<lparr>chainUploadLocation = ''file:///tmp/chains/''\<rparr>" "''data''" "''abc.pem''" "[]"]
  have d: "upload test_libs \<lparr>chainUploadLocation = ''file:///tmp/chains/''\<rparr> ''data'' ''abc.pem'' [] =
     (Return None,
      [OsStat ''/tmp/chains/'', OsMkdirAll ''/tmp/chains/'' (octal [0,7,5,5]),
       WriteFile ''/tmp/chains/abc.pem'' ''data'' (octal [0,7,5,5])])"
    by (simp add: test_parse_file writeLocalFile_test)
  from a b c d show ?thesis by blast
qed

text \<open>
  C10: the destination is the path of the location followed by the name, nothing in
  between, and the shape of the path is never a reason to fail.
  \<^item> \<open>uploadToS3\<close>, once the session exists, makes one upload, to the bucket named by
    the host of the URL, under the key \<open>Path @ name\<close>, and returns what the uploader
    returns; when the session cannot be created it panics and uploads nothing.
  \<^item> Every file that \<open>writeLocalFile\<close> writes is \<open>Path @ name\<close>.
  \<^item> When the path exists, \<open>writeLocalFile\<close> writes \<open>Path @ name\<close> and returns the
    result of the write.
  \<^item> When the path is absent and \<open>os.MkdirAll\<close> succeeds, it creates the path, writes
    \<open>Path @ name\<close> and returns the result of the write.
  \<^item> Its only other exits are the failure of \<open>os.MkdirAll\<close> and a failure of
    \<open>os.Stat\<close> other than "no such file or directory"; neither writes a file.

  In the witness the location has no trailing slash: the chain goes to the key
  \<open>/chainsabc.pem\<close>, and to the file \<open>/tmp/chainsabc.pem\<close>, both when the directory
  \<open>/tmp/chains\<close> exists and when it is absent.
\<close>

theorem upload_destination_is_path_then_name:
  "(session_NewSession L tr = None \<longrightarrow>
      uploadToS3 L data name target tr =
        (Return (s3manager_Upload L tr
           \<lparr>Bucket = Host target, Key = Path target @ name, ACL = ''public-read'',
            Body = data, ContentType = ''binary/octet-stream'',
            ContentDisposition = ''attachment''\<rparr>),
         tr @ [S3Upload
           \<lparr>Bucket = Host target, Key = Path target @ name, ACL = ''public-read'',
            Body = data, ContentType = ''binary/octet-stream'',
            ContentDisposition = ''attachment''\<rparr>]))
   \<and> (\<forall>p d m. WriteFile p d m \<in> set (snd (writeLocalFile L data name target [])) \<longrightarrow>
         p = Path target @ name)
   \<and> (os_Stat L tr (Path target) = None \<longrightarrow>
        writeLocalFile L data name target tr =
          (ioutil_WriteFile L (tr @ [OsStat (Path target)]) (Path target @ name) data
             (octal [0,7,5,5]),
           tr @ [OsStat (Path target), WriteFile (Path target @ name) data (octal [0,7,5,5])]))
   \<and> (\<forall>e. os_Stat L tr (Path target) = Some e \<and>
            strings_Contains (Error e) ''no such file or directory'' \<and>
            os_MkdirAll L (tr @ [OsStat (Path target)]) (Path target) (octal [0,7,5,5]) = None \<longrightarrow>
        writeLocalFile L data name target tr =
          (ioutil_WriteFile L
             (tr @ [OsStat (Path target), OsMkdirAll (Path target) (octal [0,7,5,5])])
             (Path target @ name) data (octal [0,7,5,5]),
           tr @ [OsStat (Path target), OsMkdirAll (Path target) (octal [0,7,5,5]),
                 WriteFile (Path target @ name) data (octal [0,7,5,5])]))
   \<and> (\<forall>e e'. os_Stat L tr (Path target) = Some e \<and>
            strings_Contains (Error e) ''no such file or directory'' \<and>
            os_MkdirAll L (tr @ [OsStat (Path target)]) (Path target) (octal [0,7,5,5]) = Some e' \<longrightarrow>
        writeLocalFile L data name target tr =
          (Some (WithMessage e' ''failed to make directory''),
           tr @ [OsStat (Path target), OsMkdirAll (Path target) (octal [0,7,5,5])]))
   \<and> (\<forall>e. os_Stat L tr (Path target) = Some e \<and>
            \<not> strings_Contains (Error e) ''no such file or directory'' \<longrightarrow>
        writeLocalFile L data name target tr = (Some e, tr @ [OsStat (Path target)]))
   \<and> (\<forall>e. session_NewSession L tr = Some e \<longrightarrow>
        uploadToS3 L data name target tr = (Panic e, tr))"
  by (simp add: uploadToS3_def writeLocalFile_def Let_def errors_Wrap_def split: option.split)

theorem upload_destination_is_path_then_name_witness:
  "session_NewSession test_libs [] = None
   \<and> uploadToS3 test_libs ''data'' ''abc.pem''
        \<lparr>Scheme = ''s3'', Host = ''bucket'', Path = ''/chains''\<rparr> [] =
       (Return None,
        [S3Upload \<lparr>Bucket = ''bucket'', Key = ''/chainsabc.pem'', ACL = ''public-read'',
                   Body = ''data'', ContentType = ''binary/octet-stream'',
                   ContentDisposition = ''attachment''\<rparr>])
   \<and> os_Stat test_libs [OsMkdirAll ''/tmp/chains'' (octal [0,7,5,5])] ''/tmp/chains'' = None
   \<and> writeLocalFile test_libs ''data'' ''abc.pem''
         \<lparr>Scheme = ''file'', Host = [], Path = ''/tmp/chains''\<rparr>
         [OsMkdirAll ''/tmp/chains'' (octal [0,7,5,5])] =
       (None,
        [OsMkdirAll ''/tmp/chains'' (octal [0,7,5,5]), OsStat ''/tmp/chains'',
         WriteFile ''/tmp/chainsabc.pem'' ''data'' (octal [0,7,5,5])])
   \<and> os_Stat test_libs [] ''/tmp/chains'' =
       Some (ErrorString ''stat /tmp/chains: no such file or directory'')
   \<and> strings_Contains ''stat /tmp/chains: no such file or directory'' ''no such file or directory''
   \<and> os_MkdirAll test_libs [OsStat ''/tmp/chains''] ''/tmp/chains'' (octal [0,7,5,5]) = None
   \<and> writeLocalFile test_libs ''data'' ''abc.pem''
         \<lparr>Scheme = ''file'', Host = [], Path = ''/tmp/chains''\<rparr> [] =
       (None,
        [OsStat ''/tmp/chains'', OsMkdirAll ''/tmp/chains'' (octal [0,7,5,5]),
         WriteFile ''/tmp/chainsabc.pem'' ''data'' (octal [0,7,5,5])])"
proof -
  note thm_s3 = upload_destination_is_path_then_name [of test_libs "[]" "''data''" "''abc.pem''"
      "\<lparr>Scheme = ''s3'', Host = ''bucket'', Path = ''/chains''\<rparr>", THEN conjunct1]
  note thm_present = upload_destination_is_path_then_name
      [of test_libs "[OsMkdirAll ''/tmp/chains'' (octal [0,7,5,5])]" "''data''" "''abc.pem''"
        "\<lparr>Scheme = ''file'', Host = [], Path = ''/tmp/chains''\<rparr>",
       THEN conjunct2, THEN conjunct2, THEN conjunct1]
  note thm_absent = upload_destination_is_path_then_name
      [of test_libs "[]" "''data''" "''abc.pem''"
        "\<lparr>Scheme = ''file'', Host = [], Path = ''/tmp/chains''\<rparr>",
       THEN conjunct2, THEN conjunct2, THEN conjunct2, THEN conjunct1, rule_format,
       of "ErrorString ''stat /tmp/chains: no such file or directory''"]
  have s: "session_NewSession test_libs [] = None" by (simp add: test_libs_def)
  have u: "s3manager_Upload test_libs []
      \<lparr>Bucket = ''bucket'', Key = ''/chainsabc.pem'', ACL = ''public-read'',
       Body = ''data'', ContentType = ''binary/octet-stream'',
       ContentDisposition = ''attachment''\<rparr> = None"
    by (simp add: test_libs_def)
  from thm_s3 s u
  have a: "uploadToS3 test_libs ''data'' ''abc.pem''
        \<lparr>Scheme = ''s3'', Host = ''bucket'', Path = ''/chains''\<rparr> [] =
       (Return None,
        [S3Upload \<lparr>Bucket = ''bucket'', Key = ''/chainsabc.pem'', ACL = ''public-read'',
                   Body = ''data'', ContentType = ''binary/octet-stream'',
                   ContentDisposition = ''attachment''\<rparr>])"
    by simp
  have t: "os_Stat test_libs [OsMkdirAll ''/tmp/chains'' (octal [0,7,5,5])] ''/tmp/chains'' = None"
    by (simp add: test_libs_def test_Stat_def)
  have w: "ioutil_WriteFile test_libs
      [OsMkdirAll ''/tmp/chains'' (octal [0,7,5,5]), OsStat ''/tmp/chains'']
      ''/tmp/chainsabc.pem'' ''data'' (octal [0,7,5,5]) = None"
    by (simp add: test_libs_def)
  from thm_present t w
  have b: "writeLocalFile test_libs ''data'' ''abc.pem''
         \<lparr>Scheme = ''file'', Host = [], Path = ''/tmp/chains''\<rparr>
         [OsMkdirAll ''/tmp/chains'' (octal [0,7,5,5])] =
       (None,
        [OsMkdirAll ''/tmp/chains'' (octal [0,7,5,5]), OsStat ''/tmp/chains'',
         WriteFile ''/tmp/chainsabc.pem'' ''data'' (octal [0,7,5,5])])"
    by simp
  have t0: "os_Stat test_libs [] ''/tmp/chains'' =
       Some (ErrorString ''stat /tmp/chains: no such file or directory'')"
    by (simp add: test_libs_def test_Stat_def)
  have c0: "strings_Contains ''stat /tmp/chains: no such file or directory''
       ''no such file or directory''"
    by (simp add: strings_Contains_def sublist_Cons_right)
  have m0: "os_MkdirAll test_libs [OsStat ''/tmp/chains''] ''/tmp/chains'' (octal [0,7,5,5]) = None"
    by (simp add: test_libs_def)
  have w0: "ioutil_WriteFile test_libs
      [OsStat ''/tmp/chains'', OsMkdirAll ''/tmp/chains'' (octal [0,7,5,5])]
      ''/tmp/chainsabc.pem'' ''data'' (octal [0,7,5,5]) = None"
    by (simp add: test_libs_def)
  from thm_absent t0 c0 m0 w0
  have c: "writeLocalFile test_libs ''data'' ''abc.pem''
         \<lparr>Scheme = ''file'', Host = [], Path = ''/tmp/chains''\<rparr> [] =
       (None,
        [OsStat ''/tmp/chains'', OsMkdirAll ''/tmp/chains'' (octal [0,7,5,5]),
         WriteFile ''/tmp/chainsabc.pem'' ''data'' (octal [0,7,5,5])])"
    by simp
  from s a t b t0 c0 m0 c show ?thesis by blast
qed




section \<open>Properties of the apk2 signer\<close>

lemmas test_apk_defs = test_apk_libs_def test_GetPrivateKey_def test_MarshalPKCS8PrivateKey_def

text \<open>
  C6: a configuration with the type tag \<open>apk2\<close>, an ID, a private key that
  \<open>GetPrivateKey\<close> parses and \<open>x509.MarshalPKCS8PrivateKey\<close> encodes, and a certificate,
  gives a signer that holds the PKCS#8 encoding of the key and the minimum SDK version
  "18" when the key is an ECDSA key, "9" for any other key. Conversely every signer that
  \<open>New\<close> returns comes with a \<open>nil\<close> error, holds the PKCS#8 encoding of the parsed key
  and has its minimum SDK version set by that rule.
\<close>

theorem New_marshals_key_and_records_min_sdk:
  "(Type' conf = ''apk2'' \<and> ID conf \<noteq> [] \<and> PrivateKey conf \<noteq> [] \<and>
    GetPrivateKey L conf = Inr priv \<and> x509_MarshalPKCS8PrivateKey L priv = Inr der \<and>
    Certificate conf \<noteq> [] \<longrightarrow>
      New L conf =
        (Some \<lparr>ID = ID conf, Type' = Type' conf, PrivateKey = PrivateKey conf,
               Certificate = Certificate conf,
               minSdkVersion = (if \<exists>k. priv = ecdsa_PrivateKey k then ''18'' else ''9''),
               pkcs8Key = der\<rparr>, None))
   \<and> (New L conf = (Some s, err) \<longrightarrow>
        err = None \<and>
        (\<exists>priv. GetPrivateKey L conf = Inr priv \<and>
           x509_MarshalPKCS8PrivateKey L priv = Inr (pkcs8Key s) \<and>
           minSdkVersion s = (if \<exists>k. priv = ecdsa_PrivateKey k then ''18'' else ''9'')))"
proof (intro conjI impI)
  assume v: "Type' conf = ''apk2'' \<and> ID conf \<noteq> [] \<and> PrivateKey conf \<noteq> [] \<and>
    GetPrivateKey L conf = Inr priv \<and> x509_MarshalPKCS8PrivateKey L priv = Inr der \<and>
    Certificate conf \<noteq> []"
  show "New L conf =
        (Some \<lparr>ID = ID conf, Type' = Type' conf, PrivateKey = PrivateKey conf,
               Certificate = Certificate conf,
               minSdkVersion = (if \<exists>k. priv = ecdsa_PrivateKey k then ''18'' else ''9''),
               pkcs8Key = der\<rparr>, None)"
    using v by (cases priv) (simp_all add: New_def apk2_Type_def)
next
  assume r: "New L conf = (Some s, err)"
  then obtain priv where g: "GetPrivateKey L conf = Inr priv"
    by (cases "GetPrivateKey L conf")
       (simp_all add: New_def errors_New_def errors_Wrap_def split: if_splits)
  from r g obtain der where m: "x509_MarshalPKCS8PrivateKey L priv = Inr der"
    by (cases "x509_MarshalPKCS8PrivateKey L priv")
       (simp_all add: New_def errors_New_def errors_Wrap_def Let_def split: if_splits)
  from r g m have e: "err = None" and k: "pkcs8Key s = der"
    and v: "minSdkVersion s = (case priv of ecdsa_PrivateKey k \<Rightarrow> ''18'' | _ \<Rightarrow> ''9'')"
    by (auto simp add: New_def errors_New_def errors_Wrap_def Let_def split: if_splits)
  from v have "minSdkVersion s = (if \<exists>k. priv = ecdsa_PrivateKey k then ''18'' else ''9'')"
    by (cases priv) simp_all
  with g m k show "\<exists>priv. GetPrivateKey L conf = Inr priv \<and>
           x509_MarshalPKCS8PrivateKey L priv = Inr (pkcs8Key s) \<and>
           minSdkVersion s = (if \<exists>k. priv = ecdsa_PrivateKey k then ''18'' else ''9'')"
    by blast
  from e show "err = None" .
qed

theorem New_marshals_key_and_records_min_sdk_witness:
  "New test_apk_libs \<lparr>ID = ''apk-release'', Type' = ''apk2'', PrivateKey = ''EC PRIVATE KEY'',
                      Certificate = ''CERT''\<rparr> =
     (Some \<lparr>ID = ''apk-release'', Type' = ''apk2'', PrivateKey = ''EC PRIVATE KEY'',
            Certificate = ''CERT'', minSdkVersion = ''18'', pkcs8Key = ''pkcs8 k1''\<rparr>, None)
   \<and> New test_apk_libs \<lparr>ID = ''apk-release'', Type' = ''apk2'', PrivateKey = ''RSA PRIVATE KEY'',
                      Certificate = ''CERT''\<rparr> =
     (Some \<lparr>ID = ''apk-release'', Type' = ''apk2'', PrivateKey = ''RSA PRIVATE KEY'',
            Certificate = ''CERT'', minSdkVersion = ''9'', pkcs8Key = ''pkcs8 k2''\<rparr>, None)"
proof -
  have k1: "GetPrivateKey test_apk_libs \<lparr>ID = ''apk-release'', Type' = ''apk2'',
      PrivateKey = ''EC PRIVATE KEY'', Certificate = ''CERT''\<rparr> = Inr (ecdsa_PrivateKey ''k1'')"
    by (simp add: test_apk_defs)
  have m1: "x509_MarshalPKCS8PrivateKey test_apk_libs (ecdsa_PrivateKey ''k1'') = Inr ''pkcs8 k1''"
    by (simp add: test_apk_defs)
  have k2: "GetPrivateKey test_apk_libs \<lparr>ID = ''apk-release'', Type' = ''apk2'',
      PrivateKey = ''RSA PRIVATE KEY'', Certificate = ''CERT''\<rparr> = Inr (rsa_PrivateKey ''k2'')"
    by (simp add: test_apk_defs)
  have m2: "x509_MarshalPKCS8PrivateKey test_apk_libs (rsa_PrivateKey ''k2'') = Inr ''pkcs8 k2''"
    by (simp add: test_apk_defs)
  note ec = New_marshals_key_and_records_min_sdk [of "\<lparr>ID = ''apk-release'', Type' = ''apk2'',
      PrivateKey = ''EC PRIVATE KEY'', Certificate = ''CERT''\<rparr>" test_apk_libs
      "ecdsa_PrivateKey ''k1''" "''pkcs8 k1''", THEN conjunct1]
  note rsa = New_marshals_key_and_records_min_sdk [of "\<lparr>ID = ''apk-release'', Type' = ''apk2'',
      PrivateKey = ''RSA PRIVATE KEY'', Certificate = ''CERT''\<rparr>" test_apk_libs
      "rsa_PrivateKey ''k2''" "''pkcs8 k2''", THEN conjunct1]
  from ec k1 m1
  have a: "New test_apk_libs \<lparr>ID = ''apk-release'', Type' = ''apk2'', PrivateKey = ''EC PRIVATE KEY'',
                      Certificate = ''CERT''\<rparr> =
     (Some \<lparr>ID = ''apk-release'', Type' = ''apk2'', PrivateKey = ''EC PRIVATE KEY'',
            Certificate = ''CERT'', minSdkVersion = ''18'', pkcs8Key = ''pkcs8 k1''\<rparr>, None)"
    by simp
  from rsa k2 m2
  have b: "New test_apk_libs \<lparr>ID = ''apk-release'', Type' = ''apk2'', PrivateKey = ''RSA PRIVATE KEY'',
                      Certificate = ''CERT''\<rparr> =
     (Some \<lparr>ID = ''apk-release'', Type' = ''apk2'', PrivateKey = ''RSA PRIVATE KEY'',
            Certificate = ''CERT'', minSdkVersion = ''9'', pkcs8Key = ''pkcs8 k2''\<rparr>, None)"
    by simp
  from a b show ?thesis by blast
qed

text \<open>
  Every misconfiguration makes \<open>New\<close> return no signer and an error whose text starts
  with "apk2: ".
\<close>

lemma New_misconfigured_error:
  assumes "Type' conf \<noteq> ''apk2'' \<or> ID conf = [] \<or> PrivateKey conf = [] \<or>
           (\<exists>e. GetPrivateKey L conf = Inl e) \<or> Certificate conf = []"
  shows "\<exists>e. New L conf = (None, Some e) \<and> prefix ''apk2: '' (Error e) \<and>
           (e = ErrorString (''apk2: invalid type '' @ strconv_Quote L (Type' conf) @
                             '', must be '' @ strconv_Quote L ''apk2'')
            \<or> e = ErrorString ''apk2: missing signer ID in signer configuration''
            \<or> e = ErrorString ''apk2: missing private key in signer configuration''
            \<or> (\<exists>cause. e = WithMessage cause ''apk2: failed to get private key from configuration'')
            \<or> (\<exists>cause. e = WithMessage cause ''apk2: failed to encode private key to pkcs8'')
            \<or> e = ErrorString ''apk2: missing public cert in signer configuration'')"
proof (cases "Type' conf \<noteq> ''apk2''")
  case True
  then show ?thesis by (simp add: New_def apk2_Type_def errors_New_def)
next
  case t: False
  show ?thesis
  proof (cases "ID conf = []")
    case True
    with t show ?thesis by (simp add: New_def apk2_Type_def errors_New_def)
  next
    case i: False
    show ?thesis
    proof (cases "PrivateKey conf = []")
      case True
      with t i show ?thesis by (simp add: New_def apk2_Type_def errors_New_def)
    next
      case p: False
      show ?thesis
      proof (cases "GetPrivateKey L conf")
        case (Inl e)
        with t i p show ?thesis by (simp add: New_def apk2_Type_def errors_Wrap_def)
      next
        case g: (Inr priv)
        show ?thesis
        proof (cases "x509_MarshalPKCS8PrivateKey L priv")
          case (Inl e)
          with t i p g show ?thesis by (simp add: New_def apk2_Type_def errors_Wrap_def)
        next
          case m: (Inr der)
          from assms t i p g have "Certificate conf = []" by simp
          with t i p g m show ?thesis by (simp add: New_def apk2_Type_def errors_New_def)
        qed
      qed
    qed
  qed
qed

text \<open>The diagnostic is the one of the first check that fails, in the order of the source.\<close>

lemma New_first_failed_check:
  "(Type' conf \<noteq> ''apk2'' \<longrightarrow>
      New L conf =
        (None, Some (ErrorString (''apk2: invalid type '' @ strconv_Quote L (Type' conf) @
                                  '', must be '' @ strconv_Quote L ''apk2''))))
   \<and> (Type' conf = ''apk2'' \<and> ID conf = [] \<longrightarrow>
      New L conf = (None, Some (ErrorString ''apk2: missing signer ID in signer configuration'')))
   \<and> (Type' conf = ''apk2'' \<and> ID conf \<noteq> [] \<and> PrivateKey conf = [] \<longrightarrow>
      New L conf = (None, Some (ErrorString ''apk2: missing private key in signer configuration'')))
   \<and> (\<forall>cause. Type' conf = ''apk2'' \<and> ID conf \<noteq> [] \<and> PrivateKey conf \<noteq> [] \<and>
        GetPrivateKey L conf = Inl cause \<longrightarrow>
      New L conf =
        (None, Some (WithMessage cause ''apk2: failed to get private key from configuration'')))
   \<and> (\<forall>priv cause. Type' conf = ''apk2'' \<and> ID conf \<noteq> [] \<and> PrivateKey conf \<noteq> [] \<and>
        GetPrivateKey L conf = Inr priv \<and> x509_MarshalPKCS8PrivateKey L priv = Inl cause \<longrightarrow>
      New L conf =
        (None, Some (WithMessage cause ''apk2: failed to encode private key to pkcs8'')))
   \<and> (\<forall>priv der. Type' conf = ''apk2'' \<and> ID conf \<noteq> [] \<and> PrivateKey conf \<noteq> [] \<and>
        GetPrivateKey L conf = Inr priv \<and> x509_MarshalPKCS8PrivateKey L priv = Inr der \<and>
        Certificate conf = [] \<longrightarrow>
      New L conf = (None, Some (ErrorString ''apk2: missing public cert in signer configuration'')))"
  by (simp add: New_def apk2_Type_def errors_New_def errors_Wrap_def Let_def)

text \<open>
  Which ID a configuration has, as long as it has one, makes no difference to the error
  of \<open>New\<close> when it makes none to \<open>GetPrivateKey\<close>.
\<close>

lemma New_id_independent:
  "i \<noteq> [] \<Longrightarrow> ID conf \<noteq> [] \<Longrightarrow> GetPrivateKey L (conf\<lparr>ID := i\<rparr>) = GetPrivateKey L conf \<Longrightarrow>
     snd (New L (conf\<lparr>ID := i\<rparr>)) = snd (New L conf)"
  by (simp add: New_def errors_New_def errors_Wrap_def Let_def split: sum.split)

text \<open>
  C8, as the code has it: a configuration with another type tag than \<open>apk2\<close>, or
  without an ID, or without a private key, or whose key does not parse, or without a
  certificate, makes \<open>New\<close> return no signer and an error whose text starts with
  "apk2: ". The diagnostic is that of the first check that fails:
  \<^item> another type tag: "apk2: invalid type T, must be A", with T the quoted type tag of
    the configuration and A the quoted \<open>apk2\<close>;
  \<^item> no ID: "apk2: missing signer ID in signer configuration";
  \<^item> no private key: "apk2: missing private key in signer configuration";
  \<^item> a key that does not parse: the error of \<open>GetPrivateKey\<close>, wrapped with "apk2:
    failed to get private key from configuration";
  \<^item> a key that does not encode: the error of \<open>x509.MarshalPKCS8PrivateKey\<close>, wrapped
    with "apk2: failed to encode private key to pkcs8";
  \<^item> no certificate: "apk2: missing public cert in signer configuration".

  \<open>New\<close> puts nothing of the signer ID into the diagnostic: replacing the ID by another
  one leaves the error as it is, whenever it leaves the answer of \<open>GetPrivateKey\<close> as it
  is.
\<close>

theorem New_misconfigured_fails:
  "(Type' conf \<noteq> ''apk2'' \<or> ID conf = [] \<or> PrivateKey conf = [] \<or>
    (\<exists>e. GetPrivateKey L conf = Inl e) \<or> Certificate conf = [] \<longrightarrow>
      (\<exists>e. New L conf = (None, Some e) \<and> prefix ''apk2: '' (Error e)))
   \<and> (Type' conf \<noteq> ''apk2'' \<longrightarrow>
      New L conf =
        (None, Some (ErrorString (''apk2: invalid type '' @ strconv_Quote L (Type' conf) @
                                  '', must be '' @ strconv_Quote L ''apk2''))))
   \<and> (Type' conf = ''apk2'' \<and> ID conf = [] \<longrightarrow>
      New L conf = (None, Some (ErrorString ''apk2: missing signer ID in signer configuration'')))
   \<and> (Type' conf = ''apk2'' \<and> ID conf \<noteq> [] \<and> PrivateKey conf = [] \<longrightarrow>
      New L conf = (None, Some (ErrorString ''apk2: missing private key in signer configuration'')))
   \<and> (\<forall>cause. Type' conf = ''apk2'' \<and> ID conf \<noteq> [] \<and> PrivateKey conf \<noteq> [] \<and>
        GetPrivateKey L conf = Inl cause \<longrightarrow>
      New L conf =
        (None, Some (WithMessage cause ''apk2: failed to get private key from configuration'')))
   \<and> (\<forall>priv cause. Type' conf = ''apk2'' \<and> ID conf \<noteq> [] \<and> PrivateKey conf \<noteq> [] \<and>
        GetPrivateKey L conf = Inr priv \<and> x509_MarshalPKCS8PrivateKey L priv = Inl cause \<longrightarrow>
      New L conf =
        (None, Some (WithMessage cause ''apk2: failed to encode private key to pkcs8'')))
   \<and> (\<forall>priv der. Type' conf = ''apk2'' \<and> ID conf \<noteq> [] \<and> PrivateKey conf \<noteq> [] \<and>
        GetPrivateKey L conf = Inr priv \<and> x509_MarshalPKCS8PrivateKey L priv = Inr der \<and>
        Certificate conf = [] \<longrightarrow>
      New L conf = (None, Some (ErrorString ''apk2: missing public cert in signer configuration'')))
   \<and> (\<forall>i. i \<noteq> [] \<and> ID conf \<noteq> [] \<and> GetPrivateKey L (conf\<lparr>ID := i\<rparr>) = GetPrivateKey L conf \<longrightarrow>
        snd (New L (conf\<lparr>ID := i\<rparr>)) = snd (New L conf))"
proof -
  have 1: "Type' conf \<noteq> ''apk2'' \<or> ID conf = [] \<or> PrivateKey conf = [] \<or>
    (\<exists>e. GetPrivateKey L conf = Inl e) \<or> Certificate conf = [] \<longrightarrow>
      (\<exists>e. New L conf = (None, Some e) \<and> prefix ''apk2: '' (Error e))"
  proof
    assume "Type' conf \<noteq> ''apk2'' \<or> ID conf = [] \<or> PrivateKey conf = [] \<or>
      (\<exists>e. GetPrivateKey L conf = Inl e) \<or> Certificate conf = []"
    from New_misconfigured_error [OF this]
    show "\<exists>e. New L conf = (None, Some e) \<and> prefix ''apk2: '' (Error e)" by blast
  qed
  have 2: "\<forall>i. i \<noteq> [] \<and> ID conf \<noteq> [] \<and> GetPrivateKey L (conf\<lparr>ID := i\<rparr>) = GetPrivateKey L conf \<longrightarrow>
        snd (New L (conf\<lparr>ID := i\<rparr>)) = snd (New L conf)"
    by (blast intro: New_id_independent)
  from 1 New_first_failed_check [of conf L] 2 show ?thesis by blast
qed

theorem New_misconfigured_fails_witness:
  "New test_apk_libs \<lparr>ID = ''apk-release'', Type' = ''apk'', PrivateKey = ''EC PRIVATE KEY'',
                      Certificate = ''CERT''\<rparr> =
     (None, Some (ErrorString (''apk2: invalid type '' @ [CHR 0x22] @ ''apk'' @ [CHR 0x22] @
                               '', must be '' @ [CHR 0x22] @ ''apk2'' @ [CHR 0x22])))
   \<and> New test_apk_libs \<lparr>ID = [], Type' = ''apk2'', PrivateKey = ''EC PRIVATE KEY'',
                      Certificate = ''CERT''\<rparr> =
     (None, Some (ErrorString ''apk2: missing signer ID in signer configuration''))
   \<and> New test_apk_libs \<lparr>ID = ''apk-release'', Type' = ''apk2'', PrivateKey = [],
                      Certificate = ''CERT''\<rparr> =
     (None, Some (ErrorString ''apk2: missing private key in signer configuration''))
   \<and> New test_apk_libs \<lparr>ID = ''apk-release'', Type' = ''apk2'', PrivateKey = ''garbage'',
                      Certificate = ''CERT''\<rparr> =
     (None, Some (WithMessage (ErrorString ''no suitable key found'')
                    ''apk2: failed to get private key from configuration''))
   \<and> New test_apk_libs \<lparr>ID = ''apk-release'', Type' = ''apk2'', PrivateKey = ''EC PRIVATE KEY'',
                      Certificate = []\<rparr> =
     (None, Some (ErrorString ''apk2: missing public cert in signer configuration''))"
proof -
  note wrong_type = New_misconfigured_fails [of "\<lparr>ID = ''apk-release'', Type' = ''apk'',
      PrivateKey = ''EC PRIVATE KEY'', Certificate = ''CERT''\<rparr>" test_apk_libs,
      THEN conjunct2, THEN conjunct1]
  note no_id = New_misconfigured_fails [of "\<lparr>ID = [], Type' = ''apk2'',
      PrivateKey = ''EC PRIVATE KEY'', Certificate = ''CERT''\<rparr>" test_apk_libs,
      THEN conjunct2, THEN conjunct2, THEN conjunct1]
  note no_key = New_misconfigured_fails [of "\<lparr>ID = ''apk-release'', Type' = ''apk2'',
      PrivateKey = [], Certificate = ''CERT''\<rparr>" test_apk_libs,
      THEN conjunct2, THEN conjunct2, THEN conjunct2, THEN conjunct1]
  note bad_key = New_misconfigured_fails [of "\<lparr>ID = ''apk-release'', Type' = ''apk2'',
      PrivateKey = ''garbage'', Certificate = ''CERT''\<rparr>" test_apk_libs,
      THEN conjunct2, THEN conjunct2, THEN conjunct2, THEN conjunct2, THEN conjunct1,
      rule_format, of "ErrorString ''no suitable key found''"]
  note no_cert = New_misconfigured_fails [of "\<lparr>ID = ''apk-release'', Type' = ''apk2'',
      PrivateKey = ''EC PRIVATE KEY'', Certificate = []\<rparr>" test_apk_libs,
      THEN conjunct2, THEN conjunct2, THEN conjunct2, THEN conjunct2, THEN conjunct2,
      THEN conjunct2, THEN conjunct1, rule_format, of "ecdsa_PrivateKey ''k1''" "''pkcs8 k1''"]
  have q: "strconv_Quote test_apk_libs = (\<lambda>s. [CHR 0x22] @ s @ [CHR 0x22])"
    by (simp add: test_apk_libs_def)
  from wrong_type
  have a: "New test_apk_libs \<lparr>ID = ''apk-release'', Type' = ''apk'', PrivateKey = ''EC PRIVATE KEY'',
                      Certificate = ''CERT''\<rparr> =
     (None, Some (ErrorString (''apk2: invalid type '' @ [CHR 0x22] @ ''apk'' @ [CHR 0x22] @
                               '', must be '' @ [CHR 0x22] @ ''apk2'' @ [CHR 0x22])))"
    by (simp add: q)
  from no_id
  have b: "New test_apk_libs \<lparr>ID = [], Type' = ''apk2'', PrivateKey = ''EC PRIVATE KEY'',
                      Certificate = ''CERT''\<rparr> =
     (None, Some (ErrorString ''apk2: missing signer ID in signer configuration''))"
    by simp
  from no_key
  have c: "New test_apk_libs \<lparr>ID = ''apk-release'', Type' = ''apk2'', PrivateKey = [],
                      Certificate = ''CERT''\<rparr> =
     (None, Some (ErrorString ''apk2: missing private key in signer configuration''))"
    by simp
  have g: "GetPrivateKey test_apk_libs \<lparr>ID = ''apk-release'', Type' = ''apk2'',
      PrivateKey = ''garbage'', Certificate = ''CERT''\<rparr> = Inl (ErrorString ''no suitable key found'')"
    by (simp add: test_apk_defs)
  from bad_key g
  have d: "New test_apk_libs \<lparr>ID = ''apk-release'', Type' = ''apk2'', PrivateKey = ''garbage'',
                      Certificate = ''CERT''\<rparr> =
     (None, Some (WithMessage (ErrorString ''no suitable key found'')
                    ''apk2: failed to get private key from configuration''))"
    by simp
  have k: "GetPrivateKey test_apk_libs \<lparr>ID = ''apk-release'', Type' = ''apk2'',
      PrivateKey = ''EC PRIVATE KEY'', Certificate = []\<rparr> = Inr (ecdsa_PrivateKey ''k1'')"
    by (simp add: test_apk_defs)
  have m: "x509_MarshalPKCS8PrivateKey test_apk_libs (ecdsa_PrivateKey ''k1'') = Inr ''pkcs8 k1''"
    by (simp add: test_apk_defs)
  from no_cert k m
  have e: "New test_apk_libs \<lparr>ID = ''apk-release'', Type' = ''apk2'', PrivateKey = ''EC PRIVATE KEY'',
                      Certificate = []\<rparr> =
     (None, Some (ErrorString ''apk2: missing public cert in signer configuration''))"
    by simp
  from a b c d e show ?thesis by blast
qed

text \<open>
  C8 as the spec states it fails: for the signer \<open>apk-release\<close> without a private key
  the diagnostic is "apk2: missing private key in signer configuration", which does not
  name the signer.
\<close>

lemma New_test_missing_key:
  "New test_apk_libs \<lparr>ID = ''apk-release'', Type' = ''apk2'', PrivateKey = [], Certificate = ''CERT''\<rparr> =
     (None, Some (ErrorString ''apk2: missing private key in signer configuration''))"
  by (simp add: New_def apk2_Type_def errors_New_def)

theorem New_diagnostic_names_id_counterexample:
  "New test_apk_libs \<lparr>ID = ''apk-release'', Type' = ''apk2'', PrivateKey = [], Certificate = ''CERT''\<rparr> =
     (None, Some (ErrorString ''apk2: missing private key in signer configuration''))
   \<and> \<not> strings_Contains (Error (ErrorString ''apk2: missing private key in signer configuration''))
          ''apk-release''"
proof -
  have "\<not> sublist ''apk-release'' ''apk2: missing private key in signer configuration''"
    by (simp add: sublist_Cons_right)
  with New_test_missing_key show ?thesis by (simp add: strings_Contains_def)
qed

subsection \<open>The temporary files of SignFile\<close>

lemmas SignFile_unfold = SignFile_def Let_def defer_Remove_def
lemmas SignFile_splits = sum.split option.split prod.split

lemma SignFile_removes_created:
  "removed (snd (SignFile L s file [])) = rev (created (snd (SignFile L s file [])))"
  by (simp add: SignFile_unfold split: SignFile_splits)

lemma SignFile_cleanup_last:
  "snd (SignFile L s file []) =
     takeWhile (\<lambda>e. \<not> isOsRemove e) (snd (SignFile L s file [])) @
     map OsRemove (rev (created (snd (SignFile L s file []))))"
  by (simp add: SignFile_unfold split: SignFile_splits)

lemma SignFile_requested:
  "prefix (requested (snd (SignFile L s file [])))
     [([], ''apk2_'' @ ID s @ ''.key''),
      ([], ''apk2_'' @ ID s @ ''.cert''),
      ([], ''apk2_input_'' @ fmt_x (sha256_Sum L file) @ ''.apk'')]"
  by (simp add: SignFile_unfold keyPattern_def certPattern_def apkPattern_def split: SignFile_splits)

lemma SignFile_write_modes:
  "WriteFile n d m \<in> set (snd (SignFile L s file [])) \<Longrightarrow>
     m = octal [0,4,0,0] \<or> (d = file \<and> m = octal [0,7,5,5])"
  by (simp add: SignFile_unfold split: sum.splits option.splits prod.splits) auto

text \<open>
  A run that gets as far as \<open>apksigner\<close> has created three temporary files, and its
  first seven calls are fixed.
\<close>

lemma SignFile_exec_trace:
  "ExecCommand argv \<in> set (snd (SignFile L s file [])) \<longrightarrow>
     length (created (snd (SignFile L s file []))) = 3
     \<and> take 7 (snd (SignFile L s file [])) =
         [TempFile [] (keyPattern s) (Inr (created (snd (SignFile L s file [])) ! 0)),
          WriteFile (created (snd (SignFile L s file [])) ! 0) (pkcs8Key s) (octal [0,4,0,0]),
          TempFile [] (certPattern s) (Inr (created (snd (SignFile L s file [])) ! 1)),
          WriteFile (created (snd (SignFile L s file [])) ! 1) (Certificate s) (octal [0,4,0,0]),
          TempFile [] (apkPattern L file) (Inr (created (snd (SignFile L s file [])) ! 2)),
          WriteFile (created (snd (SignFile L s file [])) ! 2) file (octal [0,7,5,5]),
          ExecCommand argv]
     \<and> argv = apksigner_argv s (created (snd (SignFile L s file [])) ! 0)
                (created (snd (SignFile L s file [])) ! 1)
                (created (snd (SignFile L s file [])) ! 2)"
  by (simp add: SignFile_unfold split: SignFile_splits)

lemma list_of_length_3:
  assumes "length xs = 3"
  shows "xs = [xs ! 0, xs ! 1, xs ! 2]"
proof -
  from assms obtain a b c where "xs = [a, b, c]"
    by (cases xs; cases "tl xs"; cases "tl (tl xs)") auto
  then show ?thesis by simp
qed

lemma SignFile_exec_pins:
  assumes "ExecCommand argv \<in> set (snd (SignFile L s file []))"
  shows "\<exists>keyPath certPath tmpAPKFile.
       created (snd (SignFile L s file [])) = [keyPath, certPath, tmpAPKFile]
       \<and> take 7 (snd (SignFile L s file [])) =
         [TempFile [] (''apk2_'' @ ID s @ ''.key'') (Inr keyPath),
          WriteFile keyPath (pkcs8Key s) (octal [0,4,0,0]),
          TempFile [] (''apk2_'' @ ID s @ ''.cert'') (Inr certPath),
          WriteFile certPath (Certificate s) (octal [0,4,0,0]),
          TempFile [] (''apk2_input_'' @ fmt_x (sha256_Sum L file) @ ''.apk'') (Inr tmpAPKFile),
          WriteFile tmpAPKFile file (octal [0,7,5,5]),
          ExecCommand argv]
       \<and> argv = apksigner_argv s keyPath certPath tmpAPKFile"
proof -
  let ?c = "created (snd (SignFile L s file []))"
  from assms SignFile_exec_trace [of argv L s "file"]
  have l: "length ?c = 3"
    and t: "take 7 (snd (SignFile L s file [])) =
         [TempFile [] (keyPattern s) (Inr (?c ! 0)),
          WriteFile (?c ! 0) (pkcs8Key s) (octal [0,4,0,0]),
          TempFile [] (certPattern s) (Inr (?c ! 1)),
          WriteFile (?c ! 1) (Certificate s) (octal [0,4,0,0]),
          TempFile [] (apkPattern L file) (Inr (?c ! 2)),
          WriteFile (?c ! 2) file (octal [0,7,5,5]),
          ExecCommand argv]"
    and v: "argv = apksigner_argv s (?c ! 0) (?c ! 1) (?c ! 2)"
    by blast+
  from l have c: "?c = [?c ! 0, ?c ! 1, ?c ! 2]" by (rule list_of_length_3)
  from t have t': "take 7 (snd (SignFile L s file [])) =
         [TempFile [] (''apk2_'' @ ID s @ ''.key'') (Inr (?c ! 0)),
          WriteFile (?c ! 0) (pkcs8Key s) (octal [0,4,0,0]),
          TempFile [] (''apk2_'' @ ID s @ ''.cert'') (Inr (?c ! 1)),
          WriteFile (?c ! 1) (Certificate s) (octal [0,4,0,0]),
          TempFile [] (''apk2_input_'' @ fmt_x (sha256_Sum L file) @ ''.apk'') (Inr (?c ! 2)),
          WriteFile (?c ! 2) file (octal [0,7,5,5]),
          ExecCommand argv]"
    unfolding keyPattern_def certPattern_def apkPattern_def .
  from c t' v show ?thesis by blast
qed

text \<open>
  The file that receives the private key exists before it is written: \<open>ioutil.TempFile\<close>
  has created it, with the permissions 0600, and \<open>ioutil.WriteFile\<close> leaves the
  permissions of a file that exists as they are. So 0400 is the argument of the call,
  and 0600 the mode of the file that holds the key.
\<close>

lemma SignFile_key_file_mode:
  "ioutil_TempFile L [] [] (''apk2_'' @ ID s @ ''.key'') = Inr keyPath \<Longrightarrow>
     take 2 (snd (SignFile L s file [])) =
       [TempFile [] (''apk2_'' @ ID s @ ''.key'') (Inr keyPath),
        WriteFile keyPath (pkcs8Key s) (octal [0,4,0,0])]
     \<and> file_modes (take 2 (snd (SignFile L s file []))) fs keyPath = Some (octal [0,6,0,0])"
  by (simp add: SignFile_unfold keyPattern_def file_modes_def split: SignFile_splits)

lemma SignFile_test_run:
  "SignFile test_apk_libs test_signer ''apk bytes'' [] =
    ((Some ''signed apk'', None),
     [TempFile [] ''apk2_apk-release.key'' (Inr ''/tmp/apk2_apk-release.key123456789''),
      WriteFile ''/tmp/apk2_apk-release.key123456789'' ''pkcs8 k1'' (octal [0,4,0,0]),
      TempFile [] ''apk2_apk-release.cert'' (Inr ''/tmp/apk2_apk-release.cert123456789''),
      WriteFile ''/tmp/apk2_apk-release.cert123456789'' ''CERT'' (octal [0,4,0,0]),
      TempFile [] ''apk2_input_61706b2062797465733031323334353637383961626364656630313233343536.apk''
        (Inr ''/tmp/apk2_input_61706b2062797465733031323334353637383961626364656630313233343536.apk123456789''),
      WriteFile ''/tmp/apk2_input_61706b2062797465733031323334353637383961626364656630313233343536.apk123456789''
        ''apk bytes'' (octal [0,7,5,5]),
      ExecCommand
        [''java'', ''-jar'', ''/usr/bin/apksigner'', ''sign'',
         ''--key'', ''/tmp/apk2_apk-release.key123456789'',
         ''--cert'', ''/tmp/apk2_apk-release.cert123456789'',
         ''--v1-signing-enabled'', ''true'', ''--v2-signing-enabled'', ''true'',
         ''--min-sdk-version'', ''18'',
         ''/tmp/apk2_input_61706b2062797465733031323334353637383961626364656630313233343536.apk123456789''],
      ReadFile ''/tmp/apk2_input_61706b2062797465733031323334353637383961626364656630313233343536.apk123456789'',
      OsRemove ''/tmp/apk2_input_61706b2062797465733031323334353637383961626364656630313233343536.apk123456789'',
      OsRemove ''/tmp/apk2_apk-release.cert123456789'',
      OsRemove ''/tmp/apk2_apk-release.key123456789''])"
  by code_simp

lemma SignFile_test_run_failing:
  "SignFile test_apk_libs_failing test_signer ''apk bytes'' [] =
    ((None, Some (WithMessage (ErrorString ''exit status 1'')
                    (''apk2: failed to sign'' @ [CHR 0x0A] @ ''Failed''))),
     [TempFile [] ''apk2_apk-release.key'' (Inr ''/tmp/apk2_apk-release.key123456789''),
      WriteFile ''/tmp/apk2_apk-release.key123456789'' ''pkcs8 k1'' (octal [0,4,0,0]),
      TempFile [] ''apk2_apk-release.cert'' (Inr ''/tmp/apk2_apk-release.cert123456789''),
      WriteFile ''/tmp/apk2_apk-release.cert123456789'' ''CERT'' (octal [0,4,0,0]),
      TempFile [] ''apk2_input_61706b2062797465733031323334353637383961626364656630313233343536.apk''
        (Inr ''/tmp/apk2_input_61706b2062797465733031323334353637383961626364656630313233343536.apk123456789''),
      WriteFile ''/tmp/apk2_input_61706b2062797465733031323334353637383961626364656630313233343536.apk123456789''
        ''apk bytes'' (octal [0,7,5,5]),
      ExecCommand
        [''java'', ''-jar'', ''/usr/bin/apksigner'', ''sign'',
         ''--key'', ''/tmp/apk2_apk-release.key123456789'',
         ''--cert'', ''/tmp/apk2_apk-release.cert123456789'',
         ''--v1-signing-enabled'', ''true'', ''--v2-signing-enabled'', ''true'',
         ''--min-sdk-version'', ''18'',
         ''/tmp/apk2_input_61706b2062797465733031323334353637383961626364656630313233343536.apk123456789''],
      OsRemove ''/tmp/apk2_input_61706b2062797465733031323334353637383961626364656630313233343536.apk123456789'',
      OsRemove ''/tmp/apk2_apk-release.cert123456789'',
      OsRemove ''/tmp/apk2_apk-release.key123456789''])"
  by code_simp

text \<open>
  C7 holds of the code but for the mode of the key file. In the trace \<open>T\<close> of one call
  of \<open>SignFile\<close>, whatever the libraries answer:
  \<^item> the files removed are the temporary files created, the last created first, and
    the removals are the last events of the trace, on every exit;
  \<^item> the temporary files are asked for in the default directory and in this order:
    \<open>apk2_ID.key\<close>, \<open>apk2_ID.cert\<close>, and \<open>apk2_input_D.apk\<close> with \<open>D\<close> the SHA-256
    digest of the file to sign, in hexadecimal;
  \<^item> a run that gets as far as \<open>apksigner\<close> has created exactly these three files,
    has written the key to the first and the certificate to the second with the
    argument 0400 and the input APK to the third with the argument 0755, and runs
    \<open>apksigner\<close> on the three names;
  \<^item> every write has the argument 0400 but the one of the input APK;
  \<^item> the key is written, with the argument 0400, to the file that \<open>ioutil.TempFile\<close>
    has just created: the file exists, with mode 0600, and keeps that mode. The key
    material is in a file of mode 0600, not 0400.
\<close>

theorem SignFile_temp_files:
  assumes "SignFile L s file [] = (res, T)"
  shows "removed T = rev (created T)
       \<and> T = takeWhile (\<lambda>e. \<not> isOsRemove e) T @ map OsRemove (rev (created T))
       \<and> prefix (requested T)
           [([], ''apk2_'' @ ID s @ ''.key''),
            ([], ''apk2_'' @ ID s @ ''.cert''),
            ([], ''apk2_input_'' @ fmt_x (sha256_Sum L file) @ ''.apk'')]
       \<and> (\<forall>argv. ExecCommand argv \<in> set T \<longrightarrow>
             (\<exists>keyPath certPath tmpAPKFile.
                created T = [keyPath, certPath, tmpAPKFile]
                \<and> take 7 T =
                    [TempFile [] (''apk2_'' @ ID s @ ''.key'') (Inr keyPath),
                     WriteFile keyPath (pkcs8Key s) (octal [0,4,0,0]),
                     TempFile [] (''apk2_'' @ ID s @ ''.cert'') (Inr certPath),
                     WriteFile certPath (Certificate s) (octal [0,4,0,0]),
                     TempFile [] (''apk2_input_'' @ fmt_x (sha256_Sum L file) @ ''.apk'')
                       (Inr tmpAPKFile),
                     WriteFile tmpAPKFile file (octal [0,7,5,5]),
                     ExecCommand argv]
                \<and> argv = apksigner_argv s keyPath certPath tmpAPKFile))
       \<and> (\<forall>n d m. WriteFile n d m \<in> set T \<longrightarrow>
             m = octal [0,4,0,0] \<or> (d = file \<and> m = octal [0,7,5,5]))
       \<and> (\<forall>keyPath fs. ioutil_TempFile L [] [] (''apk2_'' @ ID s @ ''.key'') = Inr keyPath \<longrightarrow>
             take 2 T = [TempFile [] (''apk2_'' @ ID s @ ''.key'') (Inr keyPath),
                         WriteFile keyPath (pkcs8Key s) (octal [0,4,0,0])]
             \<and> file_modes (take 2 T) fs keyPath = Some (octal [0,6,0,0]))"
proof -
  from assms have T: "T = snd (SignFile L s file [])" by simp
  have 1: "removed T = rev (created T)"
    unfolding T by (rule SignFile_removes_created)
  have 2: "T = takeWhile (\<lambda>e. \<not> isOsRemove e) T @ map OsRemove (rev (created T))"
    unfolding T by (rule SignFile_cleanup_last)
  have 3: "prefix (requested T)
           [([], ''apk2_'' @ ID s @ ''.key''),
            ([], ''apk2_'' @ ID s @ ''.cert''),
            ([], ''apk2_input_'' @ fmt_x (sha256_Sum L file) @ ''.apk'')]"
    unfolding T by (rule SignFile_requested)
  have 4: "\<forall>argv. ExecCommand argv \<in> set T \<longrightarrow>
             (\<exists>keyPath certPath tmpAPKFile.
                created T = [keyPath, certPath, tmpAPKFile]
                \<and> take 7 T =
                    [TempFile [] (''apk2_'' @ ID s @ ''.key'') (Inr keyPath),
                     WriteFile keyPath (pkcs8Key s) (octal [0,4,0,0]),
                     TempFile [] (''apk2_'' @ ID s @ ''.cert'') (Inr certPath),
                     WriteFile certPath (Certificate s) (octal [0,4,0,0]),
                     TempFile [] (''apk2_input_'' @ fmt_x (sha256_Sum L file) @ ''.apk'')
                       (Inr tmpAPKFile),
                     WriteFile tmpAPKFile file (octal [0,7,5,5]),
                     ExecCommand argv]
                \<and> argv = apksigner_argv s keyPath certPath tmpAPKFile)"
    unfolding T using SignFile_exec_pins by blast
  have 5: "\<forall>n d m. WriteFile n d m \<in> set T \<longrightarrow>
             m = octal [0,4,0,0] \<or> (d = file \<and> m = octal [0,7,5,5])"
    unfolding T by (blast dest: SignFile_write_modes)
  have 6: "\<forall>keyPath fs. ioutil_TempFile L [] [] (''apk2_'' @ ID s @ ''.key'') = Inr keyPath \<longrightarrow>
             take 2 T = [TempFile [] (''apk2_'' @ ID s @ ''.key'') (Inr keyPath),
                         WriteFile keyPath (pkcs8Key s) (octal [0,4,0,0])]
             \<and> file_modes (take 2 T) fs keyPath = Some (octal [0,6,0,0])"
    unfolding T using SignFile_key_file_mode by blast
  from 1 2 3 4 5 6 show ?thesis by blast
qed

theorem SignFile_temp_files_witness:
  "removed (snd (SignFile test_apk_libs test_signer ''apk bytes'' [])) =
     [''/tmp/apk2_input_61706b2062797465733031323334353637383961626364656630313233343536.apk123456789'',
      ''/tmp/apk2_apk-release.cert123456789'',
      ''/tmp/apk2_apk-release.key123456789'']
   \<and> fst (SignFile test_apk_libs test_signer ''apk bytes'' []) = (Some ''signed apk'', None)
   \<and> removed (snd (SignFile test_apk_libs_failing test_signer ''apk bytes'' [])) =
     [''/tmp/apk2_input_61706b2062797465733031323334353637383961626364656630313233343536.apk123456789'',
      ''/tmp/apk2_apk-release.cert123456789'',
      ''/tmp/apk2_apk-release.key123456789'']
   \<and> fst (SignFile test_apk_libs_failing test_signer ''apk bytes'' []) =
     (None, Some (WithMessage (ErrorString ''exit status 1'')
                    (''apk2: failed to sign'' @ [CHR 0x0A] @ ''Failed'')))
   \<and> take 2 (snd (SignFile test_apk_libs test_signer ''apk bytes'' [])) =
     [TempFile [] ''apk2_apk-release.key'' (Inr ''/tmp/apk2_apk-release.key123456789''),
      WriteFile ''/tmp/apk2_apk-release.key123456789'' ''pkcs8 k1'' (octal [0,4,0,0])]
   \<and> file_modes (take 2 (snd (SignFile test_apk_libs test_signer ''apk bytes'' []))) Map.empty
        ''/tmp/apk2_apk-release.key123456789'' = Some (octal [0,6,0,0])
   \<and> octal [0,6,0,0] \<noteq> octal [0,4,0,0]"
proof -
  note ok = SignFile_temp_files [OF SignFile_test_run]
  note failing = SignFile_temp_files [OF SignFile_test_run_failing]
  from ok
  have a: "removed (snd (SignFile test_apk_libs test_signer ''apk bytes'' [])) =
      rev (created (snd (SignFile test_apk_libs test_signer ''apk bytes'' [])))"
    unfolding SignFile_test_run snd_conv by (rule conjunct1)
  from failing
  have b: "removed (snd (SignFile test_apk_libs_failing test_signer ''apk bytes'' [])) =
      rev (created (snd (SignFile test_apk_libs_failing test_signer ''apk bytes'' [])))"
    unfolding SignFile_test_run_failing snd_conv by (rule conjunct1)
  have c: "created (snd (SignFile test_apk_libs test_signer ''apk bytes'' [])) =
     [''/tmp/apk2_apk-release.key123456789'',
      ''/tmp/apk2_apk-release.cert123456789'',
      ''/tmp/apk2_input_61706b2062797465733031323334353637383961626364656630313233343536.apk123456789'']"
    unfolding SignFile_test_run snd_conv by simp
  have d: "created (snd (SignFile test_apk_libs_failing test_signer ''apk bytes'' [])) =
     [''/tmp/apk2_apk-release.key123456789'',
      ''/tmp/apk2_apk-release.cert123456789'',
      ''/tmp/apk2_input_61706b2062797465733031323334353637383961626364656630313233343536.apk123456789'']"
    unfolding SignFile_test_run_failing snd_conv by simp
  have e: "fst (SignFile test_apk_libs test_signer ''apk bytes'' []) = (Some ''signed apk'', None)"
    unfolding SignFile_test_run fst_conv by (rule refl)
  have f: "fst (SignFile test_apk_libs_failing test_signer ''apk bytes'' []) =
     (None, Some (WithMessage (ErrorString ''exit status 1'')
                    (''apk2: failed to sign'' @ [CHR 0x0A] @ ''Failed'')))"
    unfolding SignFile_test_run_failing fst_conv by (rule refl)
  from a c have a': "removed (snd (SignFile test_apk_libs test_signer ''apk bytes'' [])) =
     [''/tmp/apk2_input_61706b2062797465733031323334353637383961626364656630313233343536.apk123456789'',
      ''/tmp/apk2_apk-release.cert123456789'',
      ''/tmp/apk2_apk-release.key123456789'']"
    by simp
  from b d have b': "removed (snd (SignFile test_apk_libs_failing test_signer ''apk bytes'' [])) =
     [''/tmp/apk2_input_61706b2062797465733031323334353637383961626364656630313233343536.apk123456789'',
      ''/tmp/apk2_apk-release.cert123456789'',
      ''/tmp/apk2_apk-release.key123456789'']"
    by simp
  have k: "ioutil_TempFile test_apk_libs [] [] (''apk2_'' @ ID test_signer @ ''.key'') =
      Inr ''/tmp/apk2_apk-release.key123456789''"
    by (simp add: test_apk_libs_def test_signer_def)
  have p: "pkcs8Key test_signer = ''pkcs8 k1''" and i: "ID test_signer = ''apk-release''"
    by (simp_all add: test_signer_def)
  from ok have "\<forall>keyPath fs.
      ioutil_TempFile test_apk_libs [] [] (''apk2_'' @ ID test_signer @ ''.key'') = Inr keyPath \<longrightarrow>
        take 2 (snd (SignFile test_apk_libs test_signer ''apk bytes'' [])) =
          [TempFile [] (''apk2_'' @ ID test_signer @ ''.key'') (Inr keyPath),
           WriteFile keyPath (pkcs8Key test_signer) (octal [0,4,0,0])]
        \<and> file_modes (take 2 (snd (SignFile test_apk_libs test_signer ''apk bytes'' []))) fs keyPath =
            Some (octal [0,6,0,0])"
    unfolding SignFile_test_run snd_conv by blast
  with k have gh: "take 2 (snd (SignFile test_apk_libs test_signer ''apk bytes'' [])) =
          [TempFile [] (''apk2_'' @ ID test_signer @ ''.key'') (Inr ''/tmp/apk2_apk-release.key123456789''),
           WriteFile ''/tmp/apk2_apk-release.key123456789'' (pkcs8Key test_signer) (octal [0,4,0,0])]
        \<and> file_modes (take 2 (snd (SignFile test_apk_libs test_signer ''apk bytes'' []))) Map.empty
             ''/tmp/apk2_apk-release.key123456789'' = Some (octal [0,6,0,0])"
    by blast
  from gh have h: "file_modes (take 2 (snd (SignFile test_apk_libs test_signer ''apk bytes'' []))) Map.empty
        ''/tmp/apk2_apk-release.key123456789'' = Some (octal [0,6,0,0])"
    by (rule conjunct2)
  from gh have "take 2 (snd (SignFile test_apk_libs test_signer ''apk bytes'' [])) =
          [TempFile [] (''apk2_'' @ ID test_signer @ ''.key'') (Inr ''/tmp/apk2_apk-release.key123456789''),
           WriteFile ''/tmp/apk2_apk-release.key123456789'' (pkcs8Key test_signer) (octal [0,4,0,0])]"
    by (rule conjunct1)
  then have g: "take 2 (snd (SignFile test_apk_libs test_signer ''apk bytes'' [])) =
     [TempFile [] ''apk2_apk-release.key'' (Inr ''/tmp/apk2_apk-release.key123456789''),
      WriteFile ''/tmp/apk2_apk-release.key123456789'' ''pkcs8 k1'' (octal [0,4,0,0])]"
    unfolding p i by simp
  have o: "octal [0,6,0,0] \<noteq> octal [0,4,0,0]" by (simp add: octal_def)
  from a' b' e f g h o show ?thesis by blast
qed

end
